theory Spec2Isabelle
  imports Complex_Main "HOL-Library.AList" "HOL-Library.Sublist" "HOL-Library.Multiset"
begin

section \<open>Numbers, JSON values and exceptions\<close>

text \<open>
  The Python code computes on IEEE floats (numpy arrays and Python floats). They are
  modelled without rounding: a finite number is a real, and the three special values are
  kept, because \<open>json.loads\<close> accepts the literals NaN, Infinity and -Infinity and
  Python compares and takes minima of NaN in its own way. A float literal of the source is
  the double it denotes, not the decimal it is written as.
\<close>

datatype fnum = Fin real | NaN | PInf | NInf

fun fadd :: "fnum \<Rightarrow> fnum \<Rightarrow> fnum" where
  "fadd NaN _ = NaN"
| "fadd _ NaN = NaN"
| "fadd (Fin a) (Fin b) = Fin (a + b)"
| "fadd PInf NInf = NaN"
| "fadd NInf PInf = NaN"
| "fadd PInf _ = PInf"
| "fadd _ PInf = PInf"
| "fadd NInf _ = NInf"
| "fadd _ NInf = NInf"

fun fneg :: "fnum \<Rightarrow> fnum" where
  "fneg (Fin a) = Fin (- a)"
| "fneg NaN = NaN"
| "fneg PInf = NInf"
| "fneg NInf = PInf"

definition fsub :: "fnum \<Rightarrow> fnum \<Rightarrow> fnum" where
  "fsub a b = fadd a (fneg b)"

text \<open>\<open>np.power(x, 2)\<close>.\<close>

fun fsquare :: "fnum \<Rightarrow> fnum" where
  "fsquare (Fin a) = Fin (a * a)"
| "fsquare NaN = NaN"
| "fsquare PInf = PInf"
| "fsquare NInf = PInf"

text \<open>Division by a finite positive constant (the only divisors the code has).\<close>

fun fdiv :: "fnum \<Rightarrow> real \<Rightarrow> fnum" where
  "fdiv (Fin a) c = Fin (a / c)"
| "fdiv NaN c = NaN"
| "fdiv PInf c = PInf"
| "fdiv NInf c = NInf"

text \<open>Python's \<open>a > b\<close> and \<open>a < b\<close> on floats: every comparison with NaN is False.\<close>

fun fgt :: "fnum \<Rightarrow> fnum \<Rightarrow> bool" where
  "fgt NaN _ = False"
| "fgt _ NaN = False"
| "fgt (Fin a) (Fin b) = (a > b)"
| "fgt PInf PInf = False"
| "fgt PInf _ = True"
| "fgt NInf _ = False"
| "fgt (Fin a) PInf = False"
| "fgt (Fin a) NInf = True"

definition flt :: "fnum \<Rightarrow> fnum \<Rightarrow> bool" where
  "flt a b = fgt b a"

text \<open>
  Python's builtin \<open>min(a, b)\<close>: it keeps the first argument unless the second is
  strictly smaller, so \<open>min(nan, 1.0)\<close> is nan.
\<close>

definition py_min :: "fnum \<Rightarrow> fnum \<Rightarrow> fnum" where
  "py_min a b = (if flt b a then b else a)"

text \<open>
  \<open>np.mean\<close> of a flat array: the sum of the elements over their number; the mean of
  an empty array is nan.
\<close>

definition np_mean :: "fnum list \<Rightarrow> fnum" where
  "np_mean xs = (if xs = [] then NaN else fdiv (foldl fadd (Fin 0) xs) (real (length xs)))"

text \<open>
  What \<open>json.loads\<close> returns. A JSON object is a Python dict, kept as an association
  list that \<open>map_of\<close> reads; JSON integers and floats are both numbers here.
\<close>

datatype jvalue =
    JNull
  | JBool bool
  | JNum fnum
  | JStr string
  | JArr "jvalue list"
  | JObj "(string \<times> jvalue) list"

text \<open>
  The exceptions of the code, one constructor per raise site or Python exception class.
  \<open>NoInputData\<close>, \<open>MissingField\<close>, \<open>NoModelFound\<close> and \<open>NoScalerFound\<close>
  are the four \<open>ValueError\<close>s the repository raises itself, told apart by their message;
  \<open>LibraryError\<close> is any exception raised inside numpy, scikit-learn, Keras or joblib.
  All are subclasses of \<open>Exception\<close>.
\<close>

datatype error =
    NoInputData
  | MissingField string
  | NoModelFound jvalue
  | NoScalerFound string
  | KeyError string
  | TypeError string
  | AttributeError string
  | UnboundLocalError string
  | JSONDecodeError
  | LibraryError string

definition bindE :: "error + 'a \<Rightarrow> ('a \<Rightarrow> error + 'b) \<Rightarrow> error + 'b" where
  "bindE r f = (case r of Inl e \<Rightarrow> Inl e | Inr x \<Rightarrow> f x)"

text \<open>\<open>d[k]\<close> on a dict: \<open>KeyError\<close> when the key is absent.\<close>

definition getitem :: "(string \<times> 'v) list \<Rightarrow> string \<Rightarrow> error + 'v" where
  "getitem d k = (case map_of d k of None \<Rightarrow> Inl (KeyError k) | Some v \<Rightarrow> Inr v)"

text \<open>\<open>k in d\<close> and \<open>list(d.keys())\<close> on a dict.\<close>

definition contains :: "(string \<times> 'v) list \<Rightarrow> string \<Rightarrow> bool" where
  "contains d k = (k \<in> set (map fst d))"

definition keys :: "(string \<times> 'v) list \<Rightarrow> string list" where
  "keys d = map fst d"

section \<open>model_predictor.py\<close>

text \<open>
  A loaded Keras model is its \<open>predict\<close>, and an unpickled scaler is its
  \<open>transform\<close> applied to the array \<open>np.array([[...]])\<close> built from the five raw
  values of the request (whatever JSON values they are); both are library code and may
  raise. A batch of one row is a flat list.
\<close>

type_synonym model = "fnum list \<Rightarrow> error + fnum list"
type_synonym scaler = "jvalue list \<Rightarrow> error + fnum list"

record ModelPredictor =
  models :: "(string \<times> model) list"
  scalers :: "(string \<times> scaler) list"

text \<open>The files the predictor reads: \<open>os.path.exists\<close> and the two loaders.\<close>

record artifacts =
  path_exists :: "string \<Rightarrow> bool"
  load_model :: "string \<Rightarrow> error + model"
  joblib_load :: "string \<Rightarrow> error + scaler"

definition lower_char :: "char \<Rightarrow> char" where
  "lower_char c =
     (let n = (of_char c :: nat) in if 65 \<le> n \<and> n \<le> 90 then char_of (n + 32) else c)"

definition lower :: "string \<Rightarrow> string" where
  "lower s = map lower_char s"

definition machine_types :: "string list" where
  "machine_types = [''Pump'', ''Compressor'', ''Motor'', ''Valve'']"

definition artifact_path :: "string \<Rightarrow> string \<Rightarrow> string" where
  "artifact_path machine_type ext = ''../ml-models/'' @ lower machine_type @ ext"

text \<open>
  One pass of the loop of \<open>load_models\<close>. Both loads happen before either dict is
  written, and an exception of either load is caught (and logged) by the \<open>except\<close> of
  the loop body, which leaves both dicts as they were.
\<close>

definition load_one :: "artifacts \<Rightarrow> ModelPredictor \<Rightarrow> string \<Rightarrow> ModelPredictor" where
  "load_one fs self machine_type =
     (let model_filename = artifact_path machine_type ''_model.h5'';
          scaler_filename = artifact_path machine_type ''_scaler.pkl''
      in
        if path_exists fs model_filename \<and> path_exists fs scaler_filename
        then (case load_model fs model_filename of
                Inl e \<Rightarrow> self
              | Inr model \<Rightarrow>
                  (case joblib_load fs scaler_filename of
                     Inl e \<Rightarrow> self
                   | Inr scaler \<Rightarrow>
                       self\<lparr>models := AList.update machine_type model (models self),
                            scalers := AList.update machine_type scaler (scalers self)\<rparr>))
        else self)"

definition load_models :: "artifacts \<Rightarrow> ModelPredictor \<Rightarrow> ModelPredictor" where
  "load_models fs self = foldl (load_one fs) self machine_types"

text \<open>\<open>ModelPredictor.__init__\<close>: two empty dicts, then \<open>load_models\<close>.\<close>

definition init :: "artifacts \<Rightarrow> ModelPredictor" where
  "init fs = load_models fs \<lparr>models = [], scalers = []\<rparr>"

definition preprocess_data ::
  "ModelPredictor \<Rightarrow> (string \<times> jvalue) list \<Rightarrow> string \<Rightarrow> error + fnum list" where
  "preprocess_data self data machine_type =
     (if \<not> contains (scalers self) machine_type then Inl (NoScalerFound machine_type)
      else
        bindE (getitem data ''vibration'') (\<lambda>vibration.
        bindE (getitem data ''temperature'') (\<lambda>temperature.
        bindE (getitem data ''pressure'') (\<lambda>pressure.
        bindE (getitem data ''flowRate'') (\<lambda>flowRate.
        bindE (getitem data ''rotationalSpeed'') (\<lambda>rotationalSpeed.
        bindE (getitem (scalers self) machine_type) (\<lambda>scaler.
          scaler [vibration, temperature, pressure, flowRate, rotationalSpeed])))))))"

text \<open>
  \<open>features_scaled - prediction\<close> on arrays of shapes (1, n) and (1, m): elementwise
  for equal shapes, a single column is broadcast, any other pair of shapes raises.
\<close>

definition np_sub :: "fnum list \<Rightarrow> fnum list \<Rightarrow> error + fnum list" where
  "np_sub xs ys =
     (if length xs = length ys then Inr (map2 fsub xs ys)
      else if length ys = 1 then Inr (map (\<lambda>x. fsub x (hd ys)) xs)
      else if length xs = 1 then Inr (map (\<lambda>y. fsub (hd xs) y) ys)
      else Inl (LibraryError ''operands could not be broadcast together''))"

text \<open>
  \<open>threshold = 0.01\<close>: the double nearest to one hundredth, which is
  5764607523034235 / 2^59 and lies a little above one hundredth.
\<close>

definition threshold :: real where
  "threshold = 5764607523034235 / 2 ^ 59"

record PredictionDetails =
  confidence :: fnum
  recommendedAction :: string

record PredictionResult =
  timestamp :: jvalue
  machineId :: jvalue
  machineType :: string
  anomalyProbability :: fnum
  isAnomaly :: bool
  mse :: fnum
  predictionDetails :: PredictionDetails

text \<open>
  \<open>predict_anomaly\<close>. The \<open>except\<close> of its \<open>try\<close> logs and re-raises, so it changes
  no result.
\<close>

definition predict_anomaly ::
  "ModelPredictor \<Rightarrow> (string \<times> jvalue) list \<Rightarrow> string \<Rightarrow> error + PredictionResult" where
  "predict_anomaly self data machine_type =
     (if \<not> contains (models self) machine_type then Inl (NoModelFound (JStr machine_type))
      else
        bindE (preprocess_data self data machine_type) (\<lambda>features_scaled.
        bindE (getitem (models self) machine_type) (\<lambda>model.
        bindE (model features_scaled) (\<lambda>prediction.
        bindE (np_sub features_scaled prediction) (\<lambda>diff.
          let mse = np_mean (map fsquare diff);
              is_anomaly = fgt mse (Fin threshold);
              anomaly_probability = py_min (fdiv mse (threshold * 2)) (Fin 1.0)
          in
            bindE (getitem data ''timestamp'') (\<lambda>timestamp.
            bindE (getitem data ''machineId'') (\<lambda>machineId.
              Inr \<lparr>timestamp = timestamp,
                   machineId = machineId,
                   machineType = machine_type,
                   anomalyProbability = anomaly_probability,
                   isAnomaly = is_anomaly,
                   mse = mse,
                   predictionDetails =
                     \<lparr>confidence = fsub (Fin 1) anomaly_probability,
                      recommendedAction =
                        (if is_anomaly then ''Inspect immediately''
                         else ''No action required'')\<rparr>\<rparr>)))))))"

definition get_machine_types :: "ModelPredictor \<Rightarrow> string list" where
  "get_machine_types self = keys (models self)"


section \<open>predictor_interface.py\<close>

definition required_fields :: "string list" where
  "required_fields =
     [''timestamp'', ''vibration'', ''temperature'', ''pressure'',
      ''flowRate'', ''rotationalSpeed'', ''machineType'', ''machineId'']"

text \<open>
  \<open>field in data\<close> for whatever \<open>json.loads\<close> returned: a key of a dict, an element
  of a list, a substring of a string; \<open>None\<close>, a bool and a number are not iterable.
\<close>

fun py_in :: "string \<Rightarrow> jvalue \<Rightarrow> error + bool" where
  "py_in k (JObj d) = Inr (contains d k)"
| "py_in k (JArr xs) = Inr (JStr k \<in> set xs)"
| "py_in k (JStr s) = Inr (sublist k s)"
| "py_in k _ = Inl (TypeError ''argument is not iterable'')"

text \<open>The validation loop: the first field that is absent raises.\<close>

fun validate :: "jvalue \<Rightarrow> string list \<Rightarrow> error + unit" where
  "validate data [] = Inr ()"
| "validate data (field # rest) =
     bindE (py_in field data) (\<lambda>present.
       if \<not> present then Inl (MissingField field) else validate data rest)"

text \<open>\<open>data[key]\<close> with a string key: only a dict can be read that way.\<close>

fun subscript :: "jvalue \<Rightarrow> string \<Rightarrow> error + jvalue" where
  "subscript (JObj d) k = getitem d k"
| "subscript (JArr xs) k = Inl (TypeError ''list indices must be integers or slices, not str'')"
| "subscript (JStr s) k = Inl (TypeError ''string indices must be integers, not str'')"
| "subscript _ k = Inl (TypeError ''object is not subscriptable'')"

text \<open>
  \<open>predictor.predict_anomaly(data, data['machineType'])\<close>. The keys of \<open>models\<close> are
  strings, so a machine type that is \<open>None\<close>, a bool or a number is never among them
  and fails the presence check of \<open>predict_anomaly\<close>; a list or a dict is unhashable
  and the presence check itself raises.
\<close>

definition run_prediction :: "ModelPredictor \<Rightarrow> jvalue \<Rightarrow> error + PredictionResult" where
  "run_prediction predictor data =
     bindE (subscript data ''machineType'') (\<lambda>machine_type.
       case data of
         JObj d \<Rightarrow>
           (case machine_type of
              JStr s \<Rightarrow> predict_anomaly predictor d s
            | JArr xs \<Rightarrow> Inl (TypeError ''unhashable type: list'')
            | JObj kvs \<Rightarrow> Inl (TypeError ''unhashable type: dict'')
            | _ \<Rightarrow> Inl (NoModelFound machine_type))
       | _ \<Rightarrow> Inl (TypeError ''object is not subscriptable''))"

text \<open>
  The body of the \<open>try\<close> of \<open>main\<close>: what the local variable \<open>data\<close> is bound to
  when the body is left (\<open>None\<close>: never assigned), and the result or the exception.
  \<open>loads\<close> is \<open>json.loads\<close>.
\<close>

definition main_try ::
  "(string \<Rightarrow> error + jvalue) \<Rightarrow> ModelPredictor \<Rightarrow> string
     \<Rightarrow> jvalue option \<times> (error + PredictionResult)" where
  "main_try loads predictor input_data =
     (if input_data = [] then (None, Inl NoInputData)
      else case loads input_data of
             Inl e \<Rightarrow> (None, Inl e)
           | Inr data \<Rightarrow>
               (Some data,
                bindE (validate data required_fields) (\<lambda>_. run_prediction predictor data)))"

text \<open>\<open>data.get(key, default)\<close>: a method of dicts only.\<close>

fun dict_get :: "jvalue \<Rightarrow> string \<Rightarrow> jvalue \<Rightarrow> error + jvalue" where
  "dict_get (JObj d) k dflt =
     Inr (case map_of d k of None \<Rightarrow> dflt | Some v \<Rightarrow> v)"
| "dict_get _ k dflt = Inl (AttributeError ''get'')"

text \<open>
  What the process writes to standard output, before \<open>json.dumps\<close>: the result of the
  prediction, or the error object. \<open>Failure e t i m p a d\<close> is the dict with \<open>error\<close>
  \<open>str(e)\<close>, \<open>timestamp\<close> \<open>t\<close>, \<open>machineId\<close> \<open>i\<close>, \<open>machineType\<close> \<open>m\<close>,
  \<open>anomalyProbability\<close> \<open>p\<close>, \<open>isAnomaly\<close> \<open>a\<close> and \<open>predictionDetails\<close> \<open>d\<close>.
\<close>

datatype response =
    Success PredictionResult
  | Failure error jvalue jvalue jvalue fnum bool PredictionDetails

text \<open>
  A run of the process: the objects printed, the exit code, and the exception that ended
  it when none of the code caught it (Python then prints a traceback to standard error
  and exits with code 1).
\<close>

record outcome =
  stdout :: "response list"
  exit_code :: nat
  uncaught :: "error option"

definition error_result :: "error \<Rightarrow> jvalue \<Rightarrow> error + response" where
  "error_result e data =
     bindE (dict_get data ''timestamp'' (JStr '''')) (\<lambda>t.
     bindE (dict_get data ''machineId'' (JStr '''')) (\<lambda>i.
     bindE (dict_get data ''machineType'' (JStr '''')) (\<lambda>m.
       Inr (Failure e t i m (Fin 0.0) False
              \<lparr>confidence = Fin 0.0,
               recommendedAction = ''Error occurred during prediction''\<rparr>))))"

text \<open>
  \<open>main\<close> of the adapter. The handler reads the local \<open>data\<close>: unbound, the read
  raises \<open>UnboundLocalError\<close> inside the handler, and nothing catches it.
\<close>

definition main ::
  "(string \<Rightarrow> error + jvalue) \<Rightarrow> ModelPredictor \<Rightarrow> string \<Rightarrow> outcome" where
  "main loads predictor input_data =
     (case main_try loads predictor input_data of
        (_, Inr result) \<Rightarrow> \<lparr>stdout = [Success result], exit_code = 0, uncaught = None\<rparr>
      | (None, Inl e) \<Rightarrow>
          \<lparr>stdout = [], exit_code = 1, uncaught = Some (UnboundLocalError ''data'')\<rparr>
      | (Some data, Inl e) \<Rightarrow>
          (case error_result e data of
             Inl e' \<Rightarrow> \<lparr>stdout = [], exit_code = 1, uncaught = Some e'\<rparr>
           | Inr r \<Rightarrow> \<lparr>stdout = [r], exit_code = 1, uncaught = None\<rparr>))"

section \<open>train_model.py\<close>

text \<open>
  The table \<open>sensor_data\<close> and the six columns the query selects. Timestamps are
  points of a linear order (here integers), measurements are finite reals.
\<close>

record reading =
  timestamp :: int
  vibration :: real
  temperature :: real
  pressure :: real
  flow_rate :: real
  rotational_speed :: real

record sensor_data = reading +
  machine_type :: string
  machine_id :: string
  role :: string

text \<open>
  The query: the rows of one machine type, newest first, at most \<open>limit\<close> of them.
  SQL leaves the order of rows with equal timestamps open; the model takes one such order.
\<close>

definition select_sensor_data :: "sensor_data list \<Rightarrow> string \<Rightarrow> nat \<Rightarrow> reading list" where
  "select_sensor_data table mt limit =
     map reading.truncate
       (take limit (rev (sort_key timestamp (filter (\<lambda>r. machine_type r = mt) table))))"

text \<open>
  \<open>load_data_from_db\<close>. The database is given by what it holds when the function is
  called for a machine type: \<open>None\<close> when the connection or the query fails (the
  function then logs and returns \<open>None\<close>). \<open>df.sort_values('timestamp')\<close> sorts
  ascending.
\<close>

definition load_data_from_db ::
  "(string \<Rightarrow> sensor_data list option) \<Rightarrow> string \<Rightarrow> nat \<Rightarrow> reading list option" where
  "load_data_from_db db mt limit =
     (case db mt of
        None \<Rightarrow> None
      | Some table \<Rightarrow> Some (sort_key timestamp (select_sensor_data table mt limit)))"

text \<open>
  scikit-learn's \<open>MinMaxScaler\<close> with the default range (0, 1): \<open>fit\<close> takes the
  minimum and the maximum of every column (it raises on an empty sample), \<open>transform\<close>
  maps \<open>x\<close> to \<open>(x - min) / (max - min)\<close>, with the divisor 1 for a constant column.
\<close>

record MinMaxScaler =
  data_min :: "real list"
  data_max :: "real list"

definition MinMaxScaler_fit :: "real list list \<Rightarrow> error + MinMaxScaler" where
  "MinMaxScaler_fit rows =
     (case rows of
        [] \<Rightarrow> Inl (LibraryError ''Found array with 0 sample(s)'')
      | r # rs \<Rightarrow>
          Inr \<lparr>data_min = foldl (map2 min) r rs, data_max = foldl (map2 max) r rs\<rparr>)"

definition MinMaxScaler_transform :: "MinMaxScaler \<Rightarrow> real list \<Rightarrow> real list" where
  "MinMaxScaler_transform s row =
     map (\<lambda>(x, lo, hi). (x - lo) / (if hi - lo = 0 then 1 else hi - lo))
       (zip row (zip (data_min s) (data_max s)))"

definition features_of :: "reading \<Rightarrow> real list" where
  "features_of r = [vibration r, temperature r, pressure r, flow_rate r, rotational_speed r]"

text \<open>\<open>prepare_data\<close>: \<open>fit_transform\<close> on the features of all the rows given.\<close>

definition prepare_data ::
  "reading list \<Rightarrow> error + (real list list \<times> real list list \<times> MinMaxScaler)" where
  "prepare_data data =
     (let features = map features_of data in
        bindE (MinMaxScaler_fit features) (\<lambda>scaler.
          let features_scaled = map (MinMaxScaler_transform scaler) features;
              X = features_scaled;
              y = features_scaled
          in Inr (X, y, scaler)))"

text \<open>
  Keras and joblib, as the training calls them: \<open>fit\<close> is \<open>build_dnn_model\<close> followed
  by \<open>model.fit\<close> on the training and validation arrays, \<open>evaluate\<close> is
  \<open>model.evaluate\<close>, \<open>save\<close> and \<open>dump\<close> write the two files. Each may raise.
\<close>

record 'm training_libs =
  fit :: "real list list \<Rightarrow> real list list \<Rightarrow> real list list \<Rightarrow> real list list \<Rightarrow> error + 'm"
  evaluate :: "'m \<Rightarrow> real list list \<Rightarrow> real list list \<Rightarrow> error + fnum"
  save :: "'m \<Rightarrow> string \<Rightarrow> error + unit"
  dump :: "MinMaxScaler \<Rightarrow> string \<Rightarrow> error + unit"

record 'm training_result =
  model :: 'm
  scaler :: MinMaxScaler
  train_loss :: fnum
  test_loss :: fnum
  model_filename :: string
  scaler_filename :: string

text \<open>
  \<open>int(0.8 * len(X))\<close>. The float product is never below the exact \<open>8 n / 10\<close> and
  exceeds it by less than the distance to the next integer, so its truncation is the
  integer quotient.
\<close>

definition split_idx :: "nat \<Rightarrow> nat" where
  "split_idx n = (8 * n) div 10"

text \<open>Lines 129 to 165: build, fit, evaluate, save, report.\<close>

definition fit_and_save ::
  "'m training_libs \<Rightarrow> string \<Rightarrow> MinMaxScaler
     \<Rightarrow> real list list \<Rightarrow> real list list \<Rightarrow> real list list \<Rightarrow> real list list
     \<Rightarrow> error + 'm training_result option" where
  "fit_and_save libs mt scaler' X_train y_train X_test y_test =
     bindE (fit libs X_train y_train X_test y_test) (\<lambda>model.
     bindE (evaluate libs model X_train y_train) (\<lambda>train_loss.
     bindE (evaluate libs model X_test y_test) (\<lambda>test_loss.
       let model_filename = lower mt @ ''_model.h5'' in
         bindE (save libs model model_filename) (\<lambda>_.
           let scaler_filename = lower mt @ ''_scaler.pkl'' in
             bindE (dump libs scaler' scaler_filename) (\<lambda>_.
               Inr (Some \<lparr>model = model, scaler = scaler',
                          train_loss = train_loss, test_loss = test_loss,
                          model_filename = model_filename,
                          scaler_filename = scaler_filename\<rparr>))))))"

text \<open>
  \<open>train_model_for_machine_type\<close>: \<open>Inr None\<close> is the return of \<open>None\<close> after the
  warning "Not enough data", \<open>Inl\<close> an exception.
\<close>

definition train_model_for_machine_type ::
  "'m training_libs \<Rightarrow> (string \<Rightarrow> sensor_data list option) \<Rightarrow> string
     \<Rightarrow> error + 'm training_result option" where
  "train_model_for_machine_type libs db mt =
     (case load_data_from_db db mt 10000 of
        None \<Rightarrow> Inr None
      | Some df \<Rightarrow>
          if length df < 100 then Inr None
          else
            bindE (prepare_data df) (\<lambda>(X, y, scaler').
              if length X < 10 then Inr None
              else
                let split_idx = split_idx (length X) in
                  fit_and_save libs mt scaler'
                    (take split_idx X) (take split_idx y)
                    (drop split_idx X) (drop split_idx y)))"

text \<open>
  The loop of \<open>main\<close> and the dict \<open>trained_models\<close> it returns: a result that is
  \<open>None\<close> and an exception are both logged and the loop goes on.
\<close>

definition train_one ::
  "'m training_libs \<Rightarrow> (string \<Rightarrow> sensor_data list option)
     \<Rightarrow> (string \<times> 'm training_result) list \<Rightarrow> string \<Rightarrow> (string \<times> 'm training_result) list" where
  "train_one libs db trained_models mt =
     (case train_model_for_machine_type libs db mt of
        Inr (Some result) \<Rightarrow> AList.update mt result trained_models
      | Inr None \<Rightarrow> trained_models
      | Inl e \<Rightarrow> trained_models)"

definition train_main ::
  "'m training_libs \<Rightarrow> (string \<Rightarrow> sensor_data list option)
     \<Rightarrow> (string \<times> 'm training_result) list" where
  "train_main libs db = foldl (train_one libs db) [] machine_types"

section \<open>Artifacts and requests used as concrete inputs\<close>

text \<open>
  A scaler artifact fitted with minimum 0 and maximum 1 in every column, so that scaling
  is the identity on numbers. As numpy and \<open>MinMaxScaler.transform\<close> do, it reads a
  boolean as 1.0 or 0.0 and \<open>None\<close> as NaN, keeps a NaN, and rejects an infinity, a
  list and a dict. It rejects every string: the library rejects a string that does not
  spell a number, and no other string is used below.
\<close>

fun scale_identity :: "jvalue \<Rightarrow> fnum option" where
  "scale_identity (JNum (Fin x)) = Some (Fin ((x - 0) / (1 - 0)))"
| "scale_identity (JNum NaN) = Some NaN"
| "scale_identity (JBool b) = Some (Fin (((if b then 1 else 0) - 0) / (1 - 0)))"
| "scale_identity JNull = Some NaN"
| "scale_identity _ = None"

fun identity_scaler :: scaler where
  "identity_scaler [] = Inr []"
| "identity_scaler (v # vs) =
     (case scale_identity v of
        None \<Rightarrow> Inl (LibraryError ''Input contains infinity or a value that is not a number'')
      | Some x \<Rightarrow> bindE (identity_scaler vs) (\<lambda>xs. Inr (x # xs)))"

text \<open>A model whose reconstruction is its input plus \<open>c\<close> in every dimension.\<close>

definition offset_model :: "real \<Rightarrow> model" where
  "offset_model c xs = Inr (map (\<lambda>x. fadd x (Fin c)) xs)"

definition pump_predictor :: "real \<Rightarrow> ModelPredictor" where
  "pump_predictor c =
     \<lparr>models = [(''Pump'', offset_model c)], scalers = [(''Pump'', identity_scaler)]\<rparr>"

definition pump_request :: "jvalue \<Rightarrow> (string \<times> jvalue) list" where
  "pump_request v =
     [(''timestamp'', JStr ''2023-01-01T00:00:00Z''),
      (''vibration'', v),
      (''temperature'', JNum (Fin 50.0)),
      (''pressure'', JNum (Fin 5.0)),
      (''flowRate'', JNum (Fin 20.0)),
      (''rotationalSpeed'', JNum (Fin 3000.0)),
      (''machineType'', JStr ''Pump''),
      (''machineId'', JStr ''M001'')]"

text \<open>
  A run whose reconstruction error is the threshold itself: a request that measures 0
  everywhere, and a model whose output does not depend on its input. The five outputs are
  single-precision floats, and the squares of their numerators add up to
  10 * 5764607523034235, so the mean of the five squares is 5764607523034235 / 2^59; every
  square and every partial sum but the last is exact in double precision.
\<close>

definition constant_model :: "real list \<Rightarrow> model" where
  "constant_model r xs = Inr (map Fin r)"

definition boundary_predictor :: ModelPredictor where
  "boundary_predictor =
     \<lparr>models =
        [(''Pump'',
          constant_model
            [0, 37154 / 2 ^ 30, 243 / 2 ^ 30, 81 / 2 ^ 30, 240095968 / 2 ^ 30])],
      scalers = [(''Pump'', identity_scaler)]\<rparr>"

definition zero_request :: "(string \<times> jvalue) list" where
  "zero_request =
     [(''timestamp'', JStr ''2023-01-01T00:00:00Z''),
      (''vibration'', JNum (Fin 0.0)),
      (''temperature'', JNum (Fin 0.0)),
      (''pressure'', JNum (Fin 0.0)),
      (''flowRate'', JNum (Fin 0.0)),
      (''rotationalSpeed'', JNum (Fin 0.0)),
      (''machineType'', JStr ''Pump''),
      (''machineId'', JStr ''M001'')]"

text \<open>A mean of squares is never negative, when it is a number at all.\<close>

fun not_negative :: "fnum \<Rightarrow> bool" where
  "not_negative (Fin a) = (0 \<le> a)"
| "not_negative NaN = True"
| "not_negative PInf = True"
| "not_negative NInf = False"

text \<open>
  The artifact pair of a machine type loads: both files exist and both loaders return.
\<close>

definition loads_ok :: "artifacts \<Rightarrow> string \<Rightarrow> bool" where
  "loads_ok fs mt \<longleftrightarrow>
     path_exists fs (artifact_path mt ''_model.h5'')
   \<and> path_exists fs (artifact_path mt ''_scaler.pkl'')
   \<and> \<not> isl (load_model fs (artifact_path mt ''_model.h5''))
   \<and> \<not> isl (joblib_load fs (artifact_path mt ''_scaler.pkl''))"

text \<open>
  An artifact directory in which the scaler file of Valve is missing; every file that
  exists holds the identity scaler or the model that reconstructs its input exactly.
\<close>

definition without_valve_scaler :: artifacts where
  "without_valve_scaler =
     \<lparr>path_exists = (\<lambda>path. path \<noteq> ''../ml-models/valve_scaler.pkl''),
      load_model = (\<lambda>path. Inr (offset_model 0)),
      joblib_load = (\<lambda>path. Inr identity_scaler)\<rparr>"

text \<open>The five measurements of a reading, and what the error object echoes of a request.\<close>

definition measurement_keys :: "string list" where
  "measurement_keys = [''vibration'', ''temperature'', ''pressure'', ''flowRate'', ''rotationalSpeed'']"

definition echoed :: "(string \<times> jvalue) list \<Rightarrow> string \<Rightarrow> jvalue" where
  "echoed d k = (case map_of d k of None \<Rightarrow> JStr '''' | Some v \<Rightarrow> v)"

text \<open>A \<open>json.loads\<close> for a standard input whose text parses to \<open>v\<close>.\<close>

definition parsed_as :: "jvalue \<Rightarrow> string \<Rightarrow> error + jvalue" where
  "parsed_as v text = Inr v"

text \<open>
  A scaler that, like \<open>MinMaxScaler.transform\<close>, raises when a value of its input is
  infinite.
\<close>

definition refuses_infinity :: "scaler \<Rightarrow> bool" where
  "refuses_infinity sc \<longleftrightarrow>
     (\<forall>vs. JNum PInf \<in> set vs \<or> JNum NInf \<in> set vs \<longrightarrow> isl (sc vs))"

text \<open>
  A table of one hundred rows of one machine type, one per time unit from 0 to 99: the 99
  older rows measure 0 everywhere, the newest row measures \<open>newest\<close> everywhere.
\<close>

definition sensor_row :: "string \<Rightarrow> nat \<Rightarrow> real \<Rightarrow> sensor_data" where
  "sensor_row mt t x =
     \<lparr>timestamp = int t, vibration = x, temperature = x, pressure = x, flow_rate = x,
      rotational_speed = x, machine_type = mt, machine_id = ''M001'', role = ''System''\<rparr>"

definition flat_table :: "string \<Rightarrow> real \<Rightarrow> sensor_data list" where
  "flat_table mt newest = map (\<lambda>t. sensor_row mt t 0) [0..<99] @ [sensor_row mt 99 newest]"

definition flat_db :: "real \<Rightarrow> string \<Rightarrow> sensor_data list option" where
  "flat_db newest mt = Some (flat_table mt newest)"

text \<open>
  A database that holds that table for Compressor only: the connection fails for Motor,
  and there are no rows for the other machine types.
\<close>

definition compressor_db :: "string \<Rightarrow> sensor_data list option" where
  "compressor_db mt =
     (if mt = ''Compressor'' then Some (flat_table mt 1)
      else if mt = ''Motor'' then None
      else Some [])"

text \<open>Libraries that never raise: every fit gives the same model, every loss is 0.\<close>

definition stub_libs :: "unit training_libs" where
  "stub_libs =
     \<lparr>fit = (\<lambda>X_train y_train X_test y_test. Inr ()),
      evaluate = (\<lambda>m X y. Inr (Fin 0)),
      save = (\<lambda>m path. Inr ()),
      dump = (\<lambda>s path. Inr ())\<rparr>"

section \<open>Properties\<close>

subsection \<open>Helper lemmas\<close>

lemma bindE_Inr_iff: "bindE r f = Inr y \<longleftrightarrow> (\<exists>x. r = Inr x \<and> f x = Inr y)"
  by (cases r) (simp_all add: bindE_def)

lemma bindE_Inl_iff:
  "bindE r f = Inl e \<longleftrightarrow> r = Inl e \<or> (\<exists>x. r = Inr x \<and> f x = Inl e)"
  by (cases r) (simp_all add: bindE_def)

lemma fadd_not_negative: "not_negative a \<Longrightarrow> not_negative b \<Longrightarrow> not_negative (fadd a b)"
  by (cases a; cases b) simp_all

lemma foldl_fadd_not_negative:
  "not_negative acc \<Longrightarrow> list_all not_negative xs \<Longrightarrow> not_negative (foldl fadd acc xs)"
  by (induction xs arbitrary: acc) (simp_all add: fadd_not_negative)

lemma fsquare_not_negative: "not_negative (fsquare x)"
  by (cases x) simp_all

lemma fdiv_not_negative: "not_negative a \<Longrightarrow> 0 < c \<Longrightarrow> not_negative (fdiv a c)"
  by (cases a) simp_all

lemma np_mean_squares_not_negative: "not_negative (np_mean (map fsquare d))"
proof (cases "d = []")
  case True
  then show ?thesis by (simp add: np_mean_def)
next
  case False
  have "list_all not_negative (map fsquare d)"
    by (simp add: list_all_iff fsquare_not_negative)
  then have "not_negative (foldl fadd (Fin 0) (map fsquare d))"
    by (intro foldl_fadd_not_negative) simp_all
  moreover from False have "0 < real (length (map fsquare d))" by simp
  ultimately show ?thesis using False
    by (simp add: np_mean_def fdiv_not_negative del: length_map)
qed

text \<open>What a successful \<open>predict_anomaly\<close> has computed.\<close>

lemma predict_anomaly_InrD:
  assumes "predict_anomaly self data mt = Inr result"
  shows "\<exists>features_scaled model prediction diff.
           contains (models self) mt
         \<and> preprocess_data self data mt = Inr features_scaled
         \<and> getitem (models self) mt = Inr model
         \<and> model features_scaled = Inr prediction
         \<and> np_sub features_scaled prediction = Inr diff
         \<and> mse result = np_mean (map fsquare diff)
         \<and> isAnomaly result = fgt (mse result) (Fin threshold)
         \<and> anomalyProbability result = py_min (fdiv (mse result) (threshold * 2)) (Fin 1)
         \<and> confidence (predictionDetails result) = fsub (Fin 1) (anomalyProbability result)
         \<and> recommendedAction (predictionDetails result) =
             (if isAnomaly result then ''Inspect immediately'' else ''No action required'')
         \<and> machineType result = mt"
  using assms
  by (auto simp: predict_anomaly_def bindE_Inr_iff Let_def split: if_splits)

text \<open>The definitions a run of \<open>predict_anomaly\<close> on a concrete request unfolds.\<close>

lemmas run_defs = predict_anomaly_def preprocess_data_def pump_predictor_def pump_request_def
        contains_def getitem_def bindE_def offset_model_def np_sub_def np_mean_def fsub_def
        threshold_def py_min_def flt_def Let_def

lemma threshold_positive: "0 < threshold"
  by (simp add: threshold_def)

lemma threshold_is_double_of_hundredth:
  "threshold = 5764607523034235 / 2 ^ 59" "\<bar>threshold - 0.01\<bar> \<le> 1 / 2 ^ 60"
  "0.01 < threshold"
  by (simp_all add: threshold_def abs_if)

lemma boundary_run:
  "\<exists>result. predict_anomaly boundary_predictor zero_request ''Pump'' = Inr result
     \<and> mse result = Fin threshold"
  by (simp add: predict_anomaly_def preprocess_data_def boundary_predictor_def zero_request_def
        contains_def getitem_def bindE_def constant_model_def np_sub_def np_mean_def fsub_def
        Let_def threshold_def)

subsection \<open>The anomaly decision\<close>

text \<open>
  C2. For every successful prediction the decision is the comparison of the reconstruction
  error with the fixed threshold, strictly: \<open>isAnomaly\<close> holds exactly when
  \<open>mse > threshold\<close>, and a reading whose \<open>mse\<close> is exactly the threshold is not
  anomalous. The threshold is the double that the literal 0.01 denotes, the one nearest to
  one hundredth.
\<close>

theorem anomaly_decision_strict_threshold:
  assumes "predict_anomaly self data mt = Inr result"
  shows "isAnomaly result = fgt (mse result) (Fin threshold)
       \<and> (\<forall>m. mse result = Fin m \<longrightarrow> (isAnomaly result \<longleftrightarrow> m > threshold))
       \<and> (mse result = Fin threshold \<longrightarrow> \<not> isAnomaly result)
       \<and> threshold = 5764607523034235 / 2 ^ 59
       \<and> \<bar>threshold - 0.01\<bar> \<le> 1 / 2 ^ 60"
proof -
  from predict_anomaly_InrD [OF assms]
  have "isAnomaly result = fgt (mse result) (Fin threshold)"
    by auto
  with threshold_is_double_of_hundredth(1,2) show ?thesis by auto
qed

text \<open>
  The run at the threshold is not anomalous; the second scenario of the spec, with error
  0.25, is.
\<close>

theorem anomaly_decision_strict_threshold_witness:
  "\<exists>result result'.
       predict_anomaly boundary_predictor zero_request ''Pump'' = Inr result
     \<and> mse result = Fin threshold \<and> \<not> isAnomaly result
     \<and> predict_anomaly (pump_predictor 0.5) (pump_request (JNum (Fin 1.0))) ''Pump'' = Inr result'
     \<and> mse result' = Fin 0.25 \<and> isAnomaly result'"
proof -
  from boundary_run obtain result where
    r: "predict_anomaly boundary_predictor zero_request ''Pump'' = Inr result"
    and m: "mse result = Fin threshold"
    by blast
  obtain result' where
    r': "predict_anomaly (pump_predictor 0.5) (pump_request (JNum (Fin 1.0))) ''Pump'' = Inr result'"
    and m': "mse result' = Fin 0.25"
    by (simp add: run_defs)
  from anomaly_decision_strict_threshold [OF r] m have 1: "\<not> isAnomaly result"
    by blast
  from anomaly_decision_strict_threshold [OF r'] m'
  have "isAnomaly result' \<longleftrightarrow> 0.25 > threshold"
    by blast
  then have 2: "isAnomaly result'"
    by (simp add: threshold_def)
  from r m 1 r' m' 2 show ?thesis by blast
qed

text \<open>
  C3. For every successful prediction \<open>anomalyProbability\<close> is
  \<open>min(mse / (threshold * 2), 1.0)\<close> and \<open>confidence\<close> is one minus it. Where the
  error is a number it is not negative, the probability is that minimum of reals, lies
  between 0 and 1, is 1 from \<open>mse = threshold * 2\<close> on, and a larger error never gives
  a smaller probability. The divisor is the double nearest to two hundredths.
\<close>

theorem anomaly_probability_saturates:
  assumes "predict_anomaly self data mt = Inr r"
      and "predict_anomaly self' data' mt' = Inr r'"
  shows "anomalyProbability r = py_min (fdiv (mse r) (threshold * 2)) (Fin 1.0)
       \<and> confidence (predictionDetails r) = fsub (Fin 1) (anomalyProbability r)
       \<and> (\<forall>m. mse r = Fin m \<longrightarrow>
             0 \<le> m
           \<and> anomalyProbability r = Fin (min (m / (threshold * 2)) 1.0)
           \<and> 0 \<le> min (m / (threshold * 2)) 1.0 \<and> min (m / (threshold * 2)) (1.0 :: real) \<le> 1
           \<and> (threshold * 2 \<le> m \<longrightarrow> anomalyProbability r = Fin 1.0)
           \<and> confidence (predictionDetails r) = Fin (1 - min (m / (threshold * 2)) 1.0))
       \<and> (\<forall>m m'. mse r = Fin m \<and> mse r' = Fin m' \<and> m \<le> m' \<longrightarrow>
             (\<exists>p p'. anomalyProbability r = Fin p \<and> anomalyProbability r' = Fin p' \<and> p \<le> p'))
       \<and> threshold * 2 = 5764607523034235 / 2 ^ 58
       \<and> \<bar>threshold * 2 - 0.02\<bar> \<le> 1 / 2 ^ 59"
proof -
  have pos: "0 < threshold * 2"
    using threshold_positive by simp
  have fin: "anomalyProbability x = Fin (min (m / (threshold * 2)) 1.0) \<and> 0 \<le> m"
    if "predict_anomaly s d t = Inr x" "mse x = Fin m" for s d t x m
  proof -
    from predict_anomaly_InrD [OF that(1)] obtain diff where
      d: "mse x = np_mean (map fsquare diff)"
      and p: "anomalyProbability x = py_min (fdiv (mse x) (threshold * 2)) (Fin 1)"
      by blast
    from np_mean_squares_not_negative [of diff] have "not_negative (mse x)" by (simp add: d)
    with that(2) have "0 \<le> m" by simp
    moreover from p that(2) have "anomalyProbability x = Fin (min (m / (threshold * 2)) 1.0)"
      by (simp add: py_min_def flt_def min_def)
    ultimately show ?thesis by simp
  qed
  from predict_anomaly_InrD [OF assms(1)]
  have a: "anomalyProbability r = py_min (fdiv (mse r) (threshold * 2)) (Fin 1.0)"
    and c: "confidence (predictionDetails r) = fsub (Fin 1) (anomalyProbability r)"
    by auto
  have b: "0 \<le> m
           \<and> anomalyProbability r = Fin (min (m / (threshold * 2)) 1.0)
           \<and> 0 \<le> min (m / (threshold * 2)) 1.0 \<and> min (m / (threshold * 2)) (1.0 :: real) \<le> 1
           \<and> (threshold * 2 \<le> m \<longrightarrow> anomalyProbability r = Fin 1.0)
           \<and> confidence (predictionDetails r) = Fin (1 - min (m / (threshold * 2)) 1.0)"
    if "mse r = Fin m" for m
  proof -
    from fin [OF assms(1) that]
    have p: "anomalyProbability r = Fin (min (m / (threshold * 2)) 1.0)" and m: "0 \<le> m"
      by simp_all
    from m pos have "0 \<le> m / (threshold * 2)" by simp
    then have range: "0 \<le> min (m / (threshold * 2)) 1.0" "min (m / (threshold * 2)) (1.0 :: real) \<le> 1"
      by simp_all
    have sat: "anomalyProbability r = Fin 1.0" if "threshold * 2 \<le> m"
    proof -
      from that pos have "1 \<le> m / (threshold * 2)" by (simp add: le_divide_eq)
      with p show ?thesis by (simp add: min_def)
    qed
    from p c have "confidence (predictionDetails r) = Fin (1 - min (m / (threshold * 2)) 1.0)"
      by (simp add: fsub_def)
    with m p range sat show ?thesis by blast
  qed
  have d: "\<exists>p p'. anomalyProbability r = Fin p \<and> anomalyProbability r' = Fin p' \<and> p \<le> p'"
    if "mse r = Fin m" "mse r' = Fin m'" "m \<le> m'" for m m'
  proof -
    from that(3) pos have "m / (threshold * 2) \<le> m' / (threshold * 2)"
      by (simp add: divide_right_mono)
    then have "min (m / (threshold * 2)) 1.0 \<le> min (m' / (threshold * 2)) (1.0 :: real)"
      by (simp add: min_def)
    with fin [OF assms(1) that(1)] fin [OF assms(2) that(2)] show ?thesis by blast
  qed
  have e: "threshold * 2 = 5764607523034235 / 2 ^ 58" "\<bar>threshold * 2 - 0.02\<bar> \<le> 1 / 2 ^ 59"
    by (simp_all add: threshold_def abs_if)
  from a c b d e show ?thesis by blast
qed

text \<open>
  The run at the threshold has probability and confidence one half; the run with error
  0.25 is saturated.
\<close>

theorem anomaly_probability_saturates_witness:
  "\<exists>r r'. predict_anomaly boundary_predictor zero_request ''Pump'' = Inr r
     \<and> predict_anomaly (pump_predictor 0.5) (pump_request (JNum (Fin 1.0))) ''Pump'' = Inr r'
     \<and> mse r = Fin threshold \<and> mse r' = Fin 0.25
     \<and> anomalyProbability r = Fin 0.5 \<and> anomalyProbability r' = Fin 1
     \<and> confidence (predictionDetails r) = Fin 0.5 \<and> confidence (predictionDetails r') = Fin 0"
proof -
  from boundary_run obtain r where
    r: "predict_anomaly boundary_predictor zero_request ''Pump'' = Inr r"
    and m: "mse r = Fin threshold"
    by blast
  obtain r' where
    r': "predict_anomaly (pump_predictor 0.5) (pump_request (JNum (Fin 1.0))) ''Pump'' = Inr r'"
    and m': "mse r' = Fin 0.25"
    by (simp add: run_defs)
  from anomaly_probability_saturates [OF r r'] m
  have "anomalyProbability r = Fin (min (threshold / (threshold * 2)) 1.0)"
    and "confidence (predictionDetails r) = Fin (1 - min (threshold / (threshold * 2)) 1.0)"
    by blast+
  then have 1: "anomalyProbability r = Fin 0.5" "confidence (predictionDetails r) = Fin 0.5"
    by (simp_all add: threshold_def)
  from anomaly_probability_saturates [OF r' r] m'
  have "anomalyProbability r' = Fin (min (0.25 / (threshold * 2)) 1.0)"
    and "confidence (predictionDetails r') = Fin (1 - min (0.25 / (threshold * 2)) 1.0)"
    by blast+
  then have 2: "anomalyProbability r' = Fin 1" "confidence (predictionDetails r') = Fin 0"
    by (simp_all add: threshold_def)
  from r r' m m' 1 2 show ?thesis by blast
qed

subsection \<open>The reconstruction error\<close>

lemma length_five:
  assumes "length xs = 5"
  obtains a b c d e where "xs = [a, b, c, d, e]"
  using assms by (auto simp: numeral_eq_Suc length_Suc_conv)

lemma sum_below_five: "(\<Sum>i<(5::nat). f i) = f 0 + f 1 + f 2 + f 3 + (f 4 :: real)"
  by (simp add: numeral_eq_Suc)

text \<open>
  C4. When the scaled features are the five numbers \<open>s\<close> and the model reconstructs
  them as the five numbers \<open>r\<close>, \<open>mse\<close> is the mean over the five dimensions of
  \<open>(s[i] - r[i])^2\<close>. So a reconstruction that is 0.5 off in every dimension gives
  \<open>mse = 0.25\<close>, \<open>isAnomaly\<close> true and \<open>anomalyProbability = 1.0\<close>.
\<close>

theorem mse_is_mean_squared_difference:
  assumes "predict_anomaly self data mt = Inr result"
      and "preprocess_data self data mt = Inr (map Fin s)"
      and "getitem (models self) mt = Inr reconstruct"
      and "reconstruct (map Fin s) = Inr (map Fin r)"
      and "length s = 5" and "length r = 5"
  shows "mse result = Fin ((\<Sum>i<5. (s ! i - r ! i)\<^sup>2) / 5)
       \<and> ((\<forall>i<5. \<bar>r ! i - s ! i\<bar> = 0.5) \<longrightarrow>
            mse result = Fin 0.25 \<and> isAnomaly result \<and> anomalyProbability result = Fin 1.0)"
proof -
  obtain s0 s1 s2 s3 s4 where s: "s = [s0, s1, s2, s3, s4]"
    using assms(5) by (rule length_five)
  obtain r0 r1 r2 r3 r4 where r: "r = [r0, r1, r2, r3, r4]"
    using assms(6) by (rule length_five)
  from predict_anomaly_InrD [OF assms(1)] assms(2,3,4)
  obtain diff where d: "np_sub (map Fin s) (map Fin r) = Inr diff"
    and m: "mse result = np_mean (map fsquare diff)"
    and a: "isAnomaly result = fgt (mse result) (Fin threshold)"
    and p: "anomalyProbability result = py_min (fdiv (mse result) (threshold * 2)) (Fin 1)"
    by auto
  from d have diff: "diff = [Fin (s0 - r0), Fin (s1 - r1), Fin (s2 - r2), Fin (s3 - r3), Fin (s4 - r4)]"
    by (auto simp: s r np_sub_def fsub_def)
  have mse: "mse result = Fin ((\<Sum>i<5. (s ! i - r ! i)\<^sup>2) / 5)"
    by (simp add: m diff np_mean_def sum_below_five s r power2_eq_square)
  have "mse result = Fin 0.25 \<and> isAnomaly result \<and> anomalyProbability result = Fin 1.0"
    if h: "\<forall>i<5. \<bar>r ! i - s ! i\<bar> = 0.5"
  proof -
    have sq: "(s ! i - r ! i)\<^sup>2 = 1 / 4" if "i < 5" for i
    proof -
      from h that have "\<bar>r ! i - s ! i\<bar> = 1 / 2" by simp
      then have "(r ! i - s ! i)\<^sup>2 = (1 / 2)\<^sup>2" by (metis power2_abs)
      moreover have "(s ! i - r ! i)\<^sup>2 = (r ! i - s ! i)\<^sup>2" by (rule power2_commute)
      ultimately show ?thesis by (simp add: power2_eq_square)
    qed
    have "(\<Sum>i<5. (s ! i - r ! i)\<^sup>2) = (\<Sum>i<(5::nat). 1 / (4::real))"
      by (rule sum.cong) (simp_all add: sq)
    then have "mse result = Fin 0.25" by (simp add: mse)
    then show ?thesis by (simp add: a p threshold_def py_min_def flt_def)
  qed
  with mse show ?thesis by blast
qed

text \<open>
  The spec's second end-to-end scenario: identity scaling, the request with vibration 1.0,
  temperature 50.0, pressure 5.0, flow rate 20.0 and rotational speed 3000.0, and a model
  that adds 0.5 in every dimension.
\<close>

theorem mse_is_mean_squared_difference_witness:
  "\<exists>result. predict_anomaly (pump_predictor 0.5) (pump_request (JNum (Fin 1.0))) ''Pump'' = Inr result
     \<and> mse result = Fin 0.25 \<and> isAnomaly result \<and> anomalyProbability result = Fin 1.0"
proof -
  let ?s = "[1, 50, 5, 20, 3000 :: real]"
  let ?r = "[1.5, 50.5, 5.5, 20.5, 3000.5 :: real]"
  obtain result where
    1: "predict_anomaly (pump_predictor 0.5) (pump_request (JNum (Fin 1.0))) ''Pump'' = Inr result"
    by (simp add: run_defs)
  have 2: "preprocess_data (pump_predictor 0.5) (pump_request (JNum (Fin 1.0))) ''Pump'' = Inr (map Fin ?s)"
    by (simp add: run_defs)
  have 3: "getitem (models (pump_predictor 0.5)) ''Pump'' = Inr (offset_model 0.5)"
    by (simp add: run_defs)
  have 4: "offset_model 0.5 (map Fin ?s) = Inr (map Fin ?r)"
    by (simp add: offset_model_def)
  have 5: "\<forall>i<5. \<bar>?r ! i - ?s ! i\<bar> = 0.5"
    by (simp add: numeral_eq_Suc less_Suc_eq)
  have 6: "length ?s = 5" and 7: "length ?r = 5"
    by simp_all
  from mse_is_mean_squared_difference [OF 1 2 3 4 6 7] 5
  have "mse result = Fin 0.25 \<and> isAnomaly result \<and> anomalyProbability result = Fin 1.0"
    by blast
  with 1 show ?thesis by blast
qed

subsection \<open>The registry after loading\<close>

text \<open>
  The four machine types are distinct, so every pass of the loop of \<open>load_models\<close>
  appends to both dicts or leaves both alone.
\<close>

lemma update_fresh: "k \<notin> set (map fst xs) \<Longrightarrow> AList.update k v xs = xs @ [(k, v)]"
  by (induction xs) auto

lemma load_one_models:
  "models (load_one fs p mt) =
     (if loads_ok fs mt
      then AList.update mt (projr (load_model fs (artifact_path mt ''_model.h5''))) (models p)
      else models p)"
  by (auto simp: load_one_def loads_ok_def Let_def split: sum.splits)

lemma load_one_scalers:
  "scalers (load_one fs p mt) =
     (if loads_ok fs mt
      then AList.update mt (projr (joblib_load fs (artifact_path mt ''_scaler.pkl''))) (scalers p)
      else scalers p)"
  by (auto simp: load_one_def loads_ok_def Let_def split: sum.splits)

lemma foldl_load_one_models:
  "distinct mts \<Longrightarrow> set mts \<inter> set (map fst (models p)) = {} \<Longrightarrow>
   models (foldl (load_one fs) p mts) =
     models p @ map (\<lambda>mt. (mt, projr (load_model fs (artifact_path mt ''_model.h5''))))
                  (filter (loads_ok fs) mts)"
proof (induction mts arbitrary: p)
  case Nil
  then show ?case by simp
next
  case (Cons mt mts)
  from Cons.prems have fresh: "mt \<notin> set (map fst (models p))" by auto
  have "set mts \<inter> set (map fst (models (load_one fs p mt))) = {}"
    using Cons.prems by (auto simp: load_one_models update_fresh [OF fresh])
  with Cons.prems Cons.IH [of "load_one fs p mt"] show ?case
    by (simp add: load_one_models update_fresh [OF fresh])
qed

lemma foldl_load_one_scalers:
  "distinct mts \<Longrightarrow> set mts \<inter> set (map fst (scalers p)) = {} \<Longrightarrow>
   scalers (foldl (load_one fs) p mts) =
     scalers p @ map (\<lambda>mt. (mt, projr (joblib_load fs (artifact_path mt ''_scaler.pkl''))))
                  (filter (loads_ok fs) mts)"
proof (induction mts arbitrary: p)
  case Nil
  then show ?case by simp
next
  case (Cons mt mts)
  from Cons.prems have fresh: "mt \<notin> set (map fst (scalers p))" by auto
  have "set mts \<inter> set (map fst (scalers (load_one fs p mt))) = {}"
    using Cons.prems by (auto simp: load_one_scalers update_fresh [OF fresh])
  with Cons.prems Cons.IH [of "load_one fs p mt"] show ?case
    by (simp add: load_one_scalers update_fresh [OF fresh])
qed

lemma distinct_machine_types: "distinct machine_types"
  by (simp add: machine_types_def)

lemma models_init:
  "models (init fs) =
     map (\<lambda>mt. (mt, projr (load_model fs (artifact_path mt ''_model.h5''))))
       (filter (loads_ok fs) machine_types)"
  by (simp add: init_def load_models_def foldl_load_one_models distinct_machine_types)

lemma scalers_init:
  "scalers (init fs) =
     map (\<lambda>mt. (mt, projr (joblib_load fs (artifact_path mt ''_scaler.pkl''))))
       (filter (loads_ok fs) machine_types)"
  by (simp add: init_def load_models_def foldl_load_one_scalers distinct_machine_types)

lemma contains_models_init:
  "contains (models (init fs)) mt \<longleftrightarrow> mt \<in> set machine_types \<and> loads_ok fs mt"
  by (auto simp: contains_def models_init)

lemma contains_scalers_init:
  "contains (scalers (init fs)) mt \<longleftrightarrow> mt \<in> set machine_types \<and> loads_ok fs mt"
  by (auto simp: contains_def scalers_init)

lemma getitem_models_init:
  "mt \<in> set machine_types \<Longrightarrow> loads_ok fs mt \<Longrightarrow>
   getitem (models (init fs)) mt = load_model fs (artifact_path mt ''_model.h5'')"
  by (simp add: getitem_def models_init map_of_map_restrict loads_ok_def)

lemma getitem_scalers_init:
  "mt \<in> set machine_types \<Longrightarrow> loads_ok fs mt \<Longrightarrow>
   getitem (scalers (init fs)) mt = joblib_load fs (artifact_path mt ''_scaler.pkl'')"
  by (simp add: getitem_def scalers_init map_of_map_restrict loads_ok_def)

lemma lower_machine_types:
  "lower ''Pump'' = ''pump''" "lower ''Compressor'' = ''compressor''"
  "lower ''Motor'' = ''motor''" "lower ''Valve'' = ''valve''"
  by code_simp+

lemma without_valve_scaler_loads:
  "loads_ok without_valve_scaler ''Pump''" "loads_ok without_valve_scaler ''Compressor''"
  "loads_ok without_valve_scaler ''Motor''" "\<not> loads_ok without_valve_scaler ''Valve''"
  by (simp_all add: loads_ok_def without_valve_scaler_def artifact_path_def lower_machine_types)

text \<open>
  C6. When the artifact pairs load for exactly the machine types in \<open>S\<close>,
  \<open>get_machine_types\<close> lists exactly \<open>S\<close> (in the order of the loop),
  \<open>predict_anomaly\<close> for any machine type outside \<open>S\<close> raises the no-model error,
  and a prediction for a type in \<open>S\<close> is the one a registry holding only that type's
  own model and scaler gives: what failed to load for other types does not change it.
\<close>

theorem partial_load:
  assumes "S = {mt \<in> set machine_types. loads_ok fs mt}"
  shows "set (get_machine_types (init fs)) = S
       \<and> get_machine_types (init fs) = filter (loads_ok fs) machine_types
       \<and> (\<forall>mt data. mt \<notin> S \<longrightarrow>
            predict_anomaly (init fs) data mt = Inl (NoModelFound (JStr mt)))
       \<and> (\<forall>mt data m sc. mt \<in> S
              \<and> load_model fs (artifact_path mt ''_model.h5'') = Inr m
              \<and> joblib_load fs (artifact_path mt ''_scaler.pkl'') = Inr sc \<longrightarrow>
            predict_anomaly (init fs) data mt =
              predict_anomaly \<lparr>models = [(mt, m)], scalers = [(mt, sc)]\<rparr> data mt)"
proof -
  have 1: "get_machine_types (init fs) = filter (loads_ok fs) machine_types"
    by (simp add: get_machine_types_def keys_def models_init comp_def)
  have 2: "predict_anomaly (init fs) data mt = Inl (NoModelFound (JStr mt))"
    if "mt \<notin> S" for mt data
    using that assms by (simp add: predict_anomaly_def contains_models_init)
  have 3: "predict_anomaly (init fs) data mt =
             predict_anomaly \<lparr>models = [(mt, m)], scalers = [(mt, sc)]\<rparr> data mt"
    if "mt \<in> S" "load_model fs (artifact_path mt ''_model.h5'') = Inr m"
       "joblib_load fs (artifact_path mt ''_scaler.pkl'') = Inr sc" for mt data m sc
  proof -
    from that(1) assms have in_S: "mt \<in> set machine_types" "loads_ok fs mt" by auto
    have "preprocess_data (init fs) data mt =
            preprocess_data \<lparr>models = [(mt, m)], scalers = [(mt, sc)]\<rparr> data mt"
      using in_S that(3)
      by (simp add: preprocess_data_def contains_scalers_init getitem_scalers_init)
         (simp add: contains_def getitem_def)
    then show ?thesis
      using in_S that(2)
      by (simp add: predict_anomaly_def contains_models_init getitem_models_init)
         (simp add: contains_def getitem_def)
  qed
  from 1 2 3 assms show ?thesis by auto
qed

text \<open>
  Three of the four pairs load: Valve's scaler file is missing.
\<close>

theorem partial_load_witness:
  "get_machine_types (init without_valve_scaler) = [''Pump'', ''Compressor'', ''Motor'']
   \<and> predict_anomaly (init without_valve_scaler) (pump_request (JNum (Fin 1.0))) ''Valve''
       = Inl (NoModelFound (JStr ''Valve''))
   \<and> predict_anomaly (init without_valve_scaler) (pump_request (JNum (Fin 1.0))) ''Pump''
       = predict_anomaly (pump_predictor 0) (pump_request (JNum (Fin 1.0))) ''Pump''"
proof -
  have S: "{''Pump'', ''Compressor'', ''Motor''} =
      {mt \<in> set machine_types. loads_ok without_valve_scaler mt}"
    using without_valve_scaler_loads by (auto simp: machine_types_def)
  note t = partial_load [OF S]
  note listed = t [THEN conjunct2, THEN conjunct1]
  note absent = t [THEN conjunct2, THEN conjunct2, THEN conjunct1, rule_format]
  note present = t [THEN conjunct2, THEN conjunct2, THEN conjunct2, rule_format]
  from listed
  have 1: "get_machine_types (init without_valve_scaler) = [''Pump'', ''Compressor'', ''Motor'']"
    by (simp add: machine_types_def without_valve_scaler_loads)
  have 2: "predict_anomaly (init without_valve_scaler) (pump_request (JNum (Fin 1.0))) ''Valve''
       = Inl (NoModelFound (JStr ''Valve''))"
    by (rule absent) simp
  have 3: "predict_anomaly (init without_valve_scaler) (pump_request (JNum (Fin 1.0))) ''Pump''
       = predict_anomaly (pump_predictor 0) (pump_request (JNum (Fin 1.0))) ''Pump''"
    unfolding pump_predictor_def
    by (rule present) (simp add: without_valve_scaler_def)
  from 1 2 3 show ?thesis by (intro conjI)
qed

text \<open>
  C10. After construction the two dicts have the same keys, in the same order, and every
  pass of the loading loop keeps them so. A machine type is a key exactly when it is one of
  the four and its pair loaded. So when the model check of \<open>predict_anomaly\<close> passes,
  the scaler check of \<open>preprocess_data\<close> passes too and the scaler found is the one
  loaded from that type's scaler file.
\<close>

theorem model_and_scaler_keys_agree:
  "keys (models (init fs)) = keys (scalers (init fs))
   \<and> (keys (models p) = keys (scalers p) \<longrightarrow>
        keys (models (load_one fs p mt)) = keys (scalers (load_one fs p mt)))
   \<and> (contains (models (init fs)) mt \<longleftrightarrow> mt \<in> set machine_types \<and> loads_ok fs mt)
   \<and> (contains (models (init fs)) mt \<longrightarrow>
        contains (scalers (init fs)) mt
      \<and> getitem (scalers (init fs)) mt = joblib_load fs (artifact_path mt ''_scaler.pkl'')
      \<and> \<not> isl (getitem (scalers (init fs)) mt))"
proof -
  have 1: "keys (models (init fs)) = keys (scalers (init fs))"
    by (simp add: keys_def models_init scalers_init comp_def)
  have 2: "keys (models (load_one fs p mt)) = keys (scalers (load_one fs p mt))"
    if "keys (models p) = keys (scalers p)"
    using that by (simp add: keys_def load_one_models load_one_scalers update_keys)
  have 3: "contains (scalers (init fs)) mt
      \<and> getitem (scalers (init fs)) mt = joblib_load fs (artifact_path mt ''_scaler.pkl'')
      \<and> \<not> isl (getitem (scalers (init fs)) mt)"
    if "contains (models (init fs)) mt"
    using that
    by (simp add: contains_models_init contains_scalers_init getitem_scalers_init)
       (simp add: loads_ok_def)
  from 1 2 3 contains_models_init [of fs mt] show ?thesis by blast
qed

theorem model_and_scaler_keys_agree_witness:
  "contains (models (init without_valve_scaler)) ''Pump''
   \<and> contains (scalers (init without_valve_scaler)) ''Pump''
   \<and> keys (scalers (init without_valve_scaler)) = [''Pump'', ''Compressor'', ''Motor'']
   \<and> getitem (scalers (init without_valve_scaler)) ''Pump'' = Inr identity_scaler"
proof -
  note t = model_and_scaler_keys_agree [of without_valve_scaler
      "\<lparr>models = [], scalers = []\<rparr>" "''Pump''"]
  note same_keys = t [THEN conjunct1]
  note loaded = t [THEN conjunct2, THEN conjunct2, THEN conjunct1]
  note scaler_there = t [THEN conjunct2, THEN conjunct2, THEN conjunct2, rule_format]
  have 1: "contains (models (init without_valve_scaler)) ''Pump''"
    unfolding loaded by (simp add: machine_types_def without_valve_scaler_loads)
  from scaler_there [OF 1]
  have 2: "contains (scalers (init without_valve_scaler)) ''Pump''"
    and 3: "getitem (scalers (init without_valve_scaler)) ''Pump'' = Inr identity_scaler"
    by (simp_all add: without_valve_scaler_def)
  have 4: "keys (scalers (init without_valve_scaler)) = [''Pump'', ''Compressor'', ''Motor'']"
    unfolding same_keys [symmetric]
    by (simp add: keys_def models_init machine_types_def without_valve_scaler_loads)
  from 1 2 3 4 show ?thesis by (intro conjI)
qed

subsection \<open>The adapter\<close>

text \<open>
  C7. The claim asks for a JSON error object on every failure, empty input and malformed
  JSON included. On empty input, and whenever \<open>json.loads\<close> raises, the handler of
  \<open>main\<close> reads the variable \<open>data\<close> that was never assigned: the process ends
  with an uncaught \<open>UnboundLocalError\<close> and has written nothing to standard output.
  The same happens, with \<open>AttributeError\<close>, when the input is a JSON list.
\<close>

theorem adapter_error_path_crashes:
  "main loads predictor [] =
     \<lparr>stdout = [], exit_code = 1, uncaught = Some (UnboundLocalError ''data'')\<rparr>
   \<and> main (\<lambda>text. Inl JSONDecodeError) predictor input_data =
     \<lparr>stdout = [], exit_code = 1, uncaught = Some (UnboundLocalError ''data'')\<rparr>
   \<and> main (\<lambda>text. Inr (JArr xs)) predictor (c # cs) =
     \<lparr>stdout = [], exit_code = 1, uncaught = Some (AttributeError ''get'')\<rparr>"
proof -
  have "isl (bindE (validate (JArr xs) required_fields) (\<lambda>_. run_prediction predictor (JArr xs)))"
    by (cases "validate (JArr xs) required_fields") (simp_all add: bindE_def run_prediction_def)
  then obtain e where
    "bindE (validate (JArr xs) required_fields) (\<lambda>_. run_prediction predictor (JArr xs)) = Inl e"
    by (auto simp: isl_def)
  then have "main (\<lambda>text. Inr (JArr xs)) predictor (c # cs) =
     \<lparr>stdout = [], exit_code = 1, uncaught = Some (AttributeError ''get'')\<rparr>"
    by (simp add: main_def main_try_def error_result_def bindE_def)
  then show ?thesis
    by (simp add: main_def main_try_def)
qed

lemma isl_bindE: "isl r \<Longrightarrow> isl (bindE r f)"
  by (cases r) (simp_all add: bindE_def)

lemma isl_bindE_cont: "(\<And>x. isl (f x)) \<Longrightarrow> isl (bindE r f)"
  by (cases r) (simp_all add: bindE_def)

lemma getitem_if:
  "getitem d k = (if contains d k then Inr (the (map_of d k)) else Inl (KeyError k))"
  by (cases "map_of d k") (auto simp: getitem_def contains_def map_of_eq_None_iff [symmetric])

lemma validate_first_missing:
  "\<exists>f\<in>set fs. \<not> contains d f \<Longrightarrow>
   \<exists>present f rest. fs = present @ f # rest \<and> (\<forall>p\<in>set present. contains d p)
      \<and> \<not> contains d f \<and> validate (JObj d) fs = Inl (MissingField f)"
proof (induction fs)
  case Nil
  then show ?case by simp
next
  case (Cons a fs)
  show ?case
  proof (cases "contains d a")
    case True
    with Cons.prems have "\<exists>f\<in>set fs. \<not> contains d f" by auto
    from Cons.IH [OF this] obtain present f rest where
      *: "fs = present @ f # rest" "\<forall>p\<in>set present. contains d p" "\<not> contains d f"
      "validate (JObj d) fs = Inl (MissingField f)"
      by blast
    from * True have "a # fs = (a # present) @ f # rest"
      "\<forall>p\<in>set (a # present). contains d p" "\<not> contains d f"
      "validate (JObj d) (a # fs) = Inl (MissingField f)"
      by (simp_all add: bindE_def)
    then show ?thesis by blast
  next
    case False
    then have "a # fs = [] @ a # fs" "\<forall>p\<in>set []. contains d p" "\<not> contains d a"
      "validate (JObj d) (a # fs) = Inl (MissingField a)"
      by (simp_all add: bindE_def)
    then show ?thesis by blast
  qed
qed

lemma validate_all_present:
  "\<forall>f\<in>set fs. contains d f \<Longrightarrow> validate (JObj d) fs = Inr ()"
  by (induction fs) (simp_all add: bindE_def)

lemma identity_scaler_refuses:
  "scale_identity v = None \<Longrightarrow> v \<in> set vs \<Longrightarrow> isl (identity_scaler vs)"
proof (induction vs)
  case Nil
  then show ?case by simp
next
  case (Cons a vs)
  show ?case
  proof (cases "scale_identity a")
    case None
    then show ?thesis by simp
  next
    case (Some x)
    with Cons.prems have "v \<in> set vs" by auto
    with Cons have "isl (identity_scaler vs)" by simp
    with Some show ?thesis by (simp add: isl_bindE)
  qed
qed

lemma identity_scaler_refuses_infinity: "refuses_infinity identity_scaler"
  unfolding refuses_infinity_def
proof (intro allI impI)
  fix vs assume "JNum PInf \<in> set vs \<or> JNum NInf \<in> set vs"
  then show "isl (identity_scaler vs)"
    by (auto intro: identity_scaler_refuses [of "JNum PInf"] identity_scaler_refuses [of "JNum NInf"])
qed

lemma error_result_dict:
  "error_result e (JObj d) =
     Inr (Failure e (echoed d ''timestamp'') (echoed d ''machineId'') (echoed d ''machineType'')
            (Fin 0.0) False
            \<lparr>confidence = Fin 0.0, recommendedAction = ''Error occurred during prediction''\<rparr>)"
  by (simp add: error_result_def bindE_def echoed_def)

lemma preprocess_hands_values_to_scaler:
  assumes "getitem (scalers self) mt = Inr sc"
      and "map (map_of d) measurement_keys = map Some vs"
  shows "preprocess_data self d mt = sc vs"
proof -
  from assms(2) have "length (map Some vs) = length (map (map_of d) measurement_keys)"
    by simp
  then have "length vs = 5"
    by (simp add: measurement_keys_def)
  then obtain v1 v2 v3 v4 v5 where vs: "vs = [v1, v2, v3, v4, v5]"
    by (rule length_five)
  from assms(1) have "contains (scalers self) mt"
    by (auto simp: getitem_if split: if_splits)
  with assms show ?thesis
    by (simp add: preprocess_data_def measurement_keys_def vs getitem_def bindE_def)
qed

text \<open>
  C5, as the code has it. A request object that lacks one of the five measurement keys
  gets no \<open>PredictionResult\<close>: \<open>predict_anomaly\<close> raises, and the adapter, reading
  that object, raises the missing-field \<open>ValueError\<close> for the first required field
  that is absent, prints the error object and exits with code 1. The five values
  themselves are not checked by the code: they are handed to the scaler as they are, and
  whenever the scaler raises on them (as one that refuses infinity does when a value is
  infinite) the prediction fails with that exception, no \<open>PredictionResult\<close> is produced,
  and the adapter prints the error object for it and exits with code 1.
\<close>

theorem unusable_reading_is_rejected:
  "(k \<in> set measurement_keys \<and> \<not> contains d k \<longrightarrow>
      isl (predict_anomaly self d mt)
    \<and> (input \<noteq> [] \<and> loads input = Inr (JObj d) \<longrightarrow>
         (\<exists>present f rest.
              required_fields = present @ f # rest
            \<and> (\<forall>p\<in>set present. contains d p) \<and> \<not> contains d f
            \<and> main loads self input =
                \<lparr>stdout =
                   [Failure (MissingField f) (echoed d ''timestamp'') (echoed d ''machineId'')
                      (echoed d ''machineType'') (Fin 0.0) False
                      \<lparr>confidence = Fin 0.0,
                       recommendedAction = ''Error occurred during prediction''\<rparr>],
                 exit_code = 1, uncaught = None\<rparr>)))
   \<and> (contains (models self) mt \<and> getitem (scalers self) mt = Inr sc
        \<and> map (map_of d) measurement_keys = map Some vs \<and> sc vs = Inl e \<longrightarrow>
      predict_anomaly self d mt = Inl e
    \<and> (input \<noteq> [] \<and> loads input = Inr (JObj d)
          \<and> (\<forall>f\<in>set required_fields. contains d f)
          \<and> map_of d ''machineType'' = Some (JStr mt) \<longrightarrow>
         main loads self input =
           \<lparr>stdout =
              [Failure e (echoed d ''timestamp'') (echoed d ''machineId'')
                 (echoed d ''machineType'') (Fin 0.0) False
                 \<lparr>confidence = Fin 0.0,
                  recommendedAction = ''Error occurred during prediction''\<rparr>],
            exit_code = 1, uncaught = None\<rparr>))
   \<and> (contains (models self) mt \<and> getitem (scalers self) mt = Inr sc
        \<and> map (map_of d) measurement_keys = map Some vs \<and> refuses_infinity sc
        \<and> (JNum PInf \<in> set vs \<or> JNum NInf \<in> set vs) \<longrightarrow>
      isl (predict_anomaly self d mt))"
proof -
  have absent: "isl (predict_anomaly self d mt)
    \<and> (input \<noteq> [] \<and> loads input = Inr (JObj d) \<longrightarrow>
         (\<exists>present f rest.
              required_fields = present @ f # rest
            \<and> (\<forall>p\<in>set present. contains d p) \<and> \<not> contains d f
            \<and> main loads self input =
                \<lparr>stdout =
                   [Failure (MissingField f) (echoed d ''timestamp'') (echoed d ''machineId'')
                      (echoed d ''machineType'') (Fin 0.0) False
                      \<lparr>confidence = Fin 0.0,
                       recommendedAction = ''Error occurred during prediction''\<rparr>],
                 exit_code = 1, uncaught = None\<rparr>))"
    if k: "k \<in> set measurement_keys" "\<not> contains d k"
  proof -
    have pre: "isl (preprocess_data self d mt)"
      using k
      by (auto simp: preprocess_data_def measurement_keys_def getitem_if bindE_def)
    then have 1: "isl (predict_anomaly self d mt)"
      by (simp add: predict_anomaly_def isl_bindE)
    have 2: "\<exists>present f rest.
              required_fields = present @ f # rest
            \<and> (\<forall>p\<in>set present. contains d p) \<and> \<not> contains d f
            \<and> main loads self input =
                \<lparr>stdout =
                   [Failure (MissingField f) (echoed d ''timestamp'') (echoed d ''machineId'')
                      (echoed d ''machineType'') (Fin 0.0) False
                      \<lparr>confidence = Fin 0.0,
                       recommendedAction = ''Error occurred during prediction''\<rparr>],
                 exit_code = 1, uncaught = None\<rparr>"
      if "input \<noteq> []" "loads input = Inr (JObj d)"
    proof -
      from k have "\<exists>f\<in>set required_fields. \<not> contains d f"
        by (auto simp: measurement_keys_def required_fields_def)
      from validate_first_missing [OF this] obtain present f rest where
        f: "required_fields = present @ f # rest" "\<forall>p\<in>set present. contains d p"
        "\<not> contains d f" "validate (JObj d) required_fields = Inl (MissingField f)"
        by blast
      from that f(4) have "main loads self input =
                \<lparr>stdout =
                   [Failure (MissingField f) (echoed d ''timestamp'') (echoed d ''machineId'')
                      (echoed d ''machineType'') (Fin 0.0) False
                      \<lparr>confidence = Fin 0.0,
                       recommendedAction = ''Error occurred during prediction''\<rparr>],
                 exit_code = 1, uncaught = None\<rparr>"
        by (simp add: main_def main_try_def bindE_def error_result_dict)
      with f(1,2,3) show ?thesis by blast
    qed
    from 1 2 show ?thesis by blast
  qed
  have raised: "predict_anomaly self d mt = Inl e
    \<and> (input \<noteq> [] \<and> loads input = Inr (JObj d)
          \<and> (\<forall>f\<in>set required_fields. contains d f)
          \<and> map_of d ''machineType'' = Some (JStr mt) \<longrightarrow>
         main loads self input =
           \<lparr>stdout =
              [Failure e (echoed d ''timestamp'') (echoed d ''machineId'')
                 (echoed d ''machineType'') (Fin 0.0) False
                 \<lparr>confidence = Fin 0.0,
                  recommendedAction = ''Error occurred during prediction''\<rparr>],
            exit_code = 1, uncaught = None\<rparr>)"
    if h: "contains (models self) mt" "getitem (scalers self) mt = Inr sc"
      "map (map_of d) measurement_keys = map Some vs" "sc vs = Inl e"
  proof -
    from preprocess_hands_values_to_scaler [OF h(2,3)] h(4)
    have "preprocess_data self d mt = Inl e" by simp
    with h(1) have 1: "predict_anomaly self d mt = Inl e"
      by (simp add: predict_anomaly_def bindE_def)
    have 2: "main loads self input =
           \<lparr>stdout =
              [Failure e (echoed d ''timestamp'') (echoed d ''machineId'')
                 (echoed d ''machineType'') (Fin 0.0) False
                 \<lparr>confidence = Fin 0.0,
                  recommendedAction = ''Error occurred during prediction''\<rparr>],
            exit_code = 1, uncaught = None\<rparr>"
      if "input \<noteq> []" "loads input = Inr (JObj d)" "\<forall>f\<in>set required_fields. contains d f"
         "map_of d ''machineType'' = Some (JStr mt)"
      using that validate_all_present [OF that(3)] 1
      by (simp add: main_def main_try_def bindE_def run_prediction_def getitem_def
            error_result_dict)
    from 1 2 show ?thesis by blast
  qed
  have infinite: "isl (predict_anomaly self d mt)"
    if h: "contains (models self) mt" "getitem (scalers self) mt = Inr sc"
      "map (map_of d) measurement_keys = map Some vs" "refuses_infinity sc"
      "JNum PInf \<in> set vs \<or> JNum NInf \<in> set vs"
  proof -
    from h(4,5) have "isl (sc vs)" unfolding refuses_infinity_def by blast
    with preprocess_hands_values_to_scaler [OF h(2,3)]
    have "isl (preprocess_data self d mt)" by simp
    with h(1) show ?thesis
      by (simp add: predict_anomaly_def isl_bindE)
  qed
  from absent raised infinite show ?thesis by blast
qed

text \<open>
  The request of the spec's scenario without its timestamp and its vibration: the error
  names the timestamp, the first of the two in the order of the check. The same request
  with an infinite vibration, and with the vibration \<open>'abc'\<close>: the scaler raises, and
  the adapter reports its exception.
\<close>

theorem unusable_reading_is_rejected_witness:
  "isl (predict_anomaly (pump_predictor 0)
          (AList.delete ''timestamp'' (AList.delete ''vibration'' (pump_request (JNum (Fin 1.0)))))
          ''Pump'')
   \<and> main (parsed_as (JObj (AList.delete ''timestamp''
                               (AList.delete ''vibration'' (pump_request (JNum (Fin 1.0)))))))
        (pump_predictor 0) ''{...}'' =
       \<lparr>stdout =
          [Failure (MissingField ''timestamp'') (JStr []) (JStr ''M001'')
             (JStr ''Pump'') (Fin 0.0) False
             \<lparr>confidence = Fin 0.0, recommendedAction = ''Error occurred during prediction''\<rparr>],
        exit_code = 1, uncaught = None\<rparr>
   \<and> predict_anomaly (pump_predictor 0) (pump_request (JNum PInf)) ''Pump'' =
       Inl (LibraryError ''Input contains infinity or a value that is not a number'')
   \<and> main (parsed_as (JObj (pump_request (JNum PInf)))) (pump_predictor 0) ''{...}'' =
       \<lparr>stdout =
          [Failure (LibraryError ''Input contains infinity or a value that is not a number'')
             (JStr ''2023-01-01T00:00:00Z'') (JStr ''M001'') (JStr ''Pump'') (Fin 0.0) False
             \<lparr>confidence = Fin 0.0, recommendedAction = ''Error occurred during prediction''\<rparr>],
        exit_code = 1, uncaught = None\<rparr>
   \<and> predict_anomaly (pump_predictor 0) (pump_request (JStr ''abc'')) ''Pump'' =
       Inl (LibraryError ''Input contains infinity or a value that is not a number'')
   \<and> main (parsed_as (JObj (pump_request (JStr ''abc'')))) (pump_predictor 0) ''{...}'' =
       \<lparr>stdout =
          [Failure (LibraryError ''Input contains infinity or a value that is not a number'')
             (JStr ''2023-01-01T00:00:00Z'') (JStr ''M001'') (JStr ''Pump'') (Fin 0.0) False
             \<lparr>confidence = Fin 0.0, recommendedAction = ''Error occurred during prediction''\<rparr>],
        exit_code = 1, uncaught = None\<rparr>
   \<and> isl (predict_anomaly (pump_predictor 0) (pump_request (JNum NInf)) ''Pump'')"
proof -
  define d0 where
    "d0 = AList.delete ''timestamp'' (AList.delete ''vibration'' (pump_request (JNum (Fin 1.0))))"
  define E where "E = LibraryError ''Input contains infinity or a value that is not a number''"
  define details where
    "details = \<lparr>confidence = Fin 0.0, recommendedAction = ''Error occurred during prediction''\<rparr>"
  have k: "''vibration'' \<in> set measurement_keys \<and> \<not> contains d0 ''vibration''"
    by (simp add: measurement_keys_def d0_def contains_def pump_request_def)
  have no_stamp: "\<not> contains d0 ''timestamp''"
    by (simp add: d0_def contains_def pump_request_def)
  have echo0: "echoed d0 ''timestamp'' = JStr []" "echoed d0 ''machineId'' = JStr ''M001''"
    "echoed d0 ''machineType'' = JStr ''Pump''"
    by (simp_all add: echoed_def d0_def pump_request_def)
  note t1 = unusable_reading_is_rejected [where k = "''vibration''" and d = d0
      and self = "pump_predictor 0" and mt = "''Pump''" and input = "''{...}''"
      and loads = "parsed_as (JObj d0)", THEN conjunct1, rule_format, OF k]
  have 1: "isl (predict_anomaly (pump_predictor 0) d0 ''Pump'')"
    by (rule t1 [THEN conjunct1])
  have "''{...}'' \<noteq> [] \<and> parsed_as (JObj d0) ''{...}'' = Inr (JObj d0)"
    by (simp add: parsed_as_def)
  from t1 [THEN conjunct2, rule_format, OF this] obtain present f rest where
    split: "required_fields = present @ f # rest"
    and before: "\<forall>p\<in>set present. contains d0 p"
    and m: "main (parsed_as (JObj d0)) (pump_predictor 0) ''{...}'' =
       \<lparr>stdout =
          [Failure (MissingField f) (echoed d0 ''timestamp'') (echoed d0 ''machineId'')
             (echoed d0 ''machineType'') (Fin 0.0) False
             \<lparr>confidence = Fin 0.0, recommendedAction = ''Error occurred during prediction''\<rparr>],
        exit_code = 1, uncaught = None\<rparr>"
    by blast
  have "f = ''timestamp''"
  proof (cases present)
    case Nil
    with split show ?thesis by (simp add: required_fields_def)
  next
    case (Cons p ps)
    with split have "p = ''timestamp''" by (simp add: required_fields_def)
    with Cons before no_stamp show ?thesis by simp
  qed
  with m have 2: "main (parsed_as (JObj d0)) (pump_predictor 0) ''{...}'' =
       \<lparr>stdout =
          [Failure (MissingField ''timestamp'') (JStr []) (JStr ''M001'')
             (JStr ''Pump'') (Fin 0.0) False details],
        exit_code = 1, uncaught = None\<rparr>"
    by (simp only: echo0 details_def)
  have refused: "predict_anomaly (pump_predictor 0) (pump_request v) ''Pump'' = Inl E
      \<and> main (parsed_as (JObj (pump_request v))) (pump_predictor 0) ''{...}'' =
       \<lparr>stdout =
          [Failure E (JStr ''2023-01-01T00:00:00Z'') (JStr ''M001'') (JStr ''Pump'')
             (Fin 0.0) False details],
        exit_code = 1, uncaught = None\<rparr>"
    if v: "scale_identity v = None" for v
  proof -
    let ?vs = "[v, JNum (Fin 50.0), JNum (Fin 5.0), JNum (Fin 20.0), JNum (Fin 3000.0)]"
    have pre: "contains (models (pump_predictor 0)) ''Pump''
        \<and> getitem (scalers (pump_predictor 0)) ''Pump'' = Inr identity_scaler
        \<and> map (map_of (pump_request v)) measurement_keys = map Some ?vs
        \<and> identity_scaler ?vs = Inl E"
      using v
      by (simp add: pump_predictor_def contains_def getitem_def measurement_keys_def
            pump_request_def E_def)
    note t2 = unusable_reading_is_rejected [where d = "pump_request v"
        and self = "pump_predictor 0" and mt = "''Pump''" and input = "''{...}''"
        and loads = "parsed_as (JObj (pump_request v))" and sc = identity_scaler
        and vs = ?vs and e = E, THEN conjunct2, THEN conjunct1, rule_format, OF pre]
    have a: "predict_anomaly (pump_predictor 0) (pump_request v) ''Pump'' = Inl E"
      by (rule t2 [THEN conjunct1])
    have "''{...}'' \<noteq> [] \<and> parsed_as (JObj (pump_request v)) ''{...}'' = Inr (JObj (pump_request v))
        \<and> (\<forall>f\<in>set required_fields. contains (pump_request v) f)
        \<and> map_of (pump_request v) ''machineType'' = Some (JStr ''Pump'')"
      by (simp add: parsed_as_def required_fields_def contains_def pump_request_def)
    from t2 [THEN conjunct2, rule_format, OF this]
    have "main (parsed_as (JObj (pump_request v))) (pump_predictor 0) ''{...}'' =
       \<lparr>stdout =
          [Failure E (JStr ''2023-01-01T00:00:00Z'') (JStr ''M001'') (JStr ''Pump'')
             (Fin 0.0) False details],
        exit_code = 1, uncaught = None\<rparr>"
      by (simp add: echoed_def pump_request_def details_def)
    with a show ?thesis by (rule conjI)
  qed
  have 3: "isl (predict_anomaly (pump_predictor 0) (pump_request (JNum NInf)) ''Pump'')"
  proof -
    let ?vs = "[JNum NInf, JNum (Fin 50.0), JNum (Fin 5.0), JNum (Fin 20.0), JNum (Fin 3000.0)]"
    have pre: "contains (models (pump_predictor 0)) ''Pump''
        \<and> getitem (scalers (pump_predictor 0)) ''Pump'' = Inr identity_scaler
        \<and> map (map_of (pump_request (JNum NInf))) measurement_keys = map Some ?vs
        \<and> refuses_infinity identity_scaler
        \<and> (JNum PInf \<in> set ?vs \<or> JNum NInf \<in> set ?vs)"
      by (simp add: pump_predictor_def contains_def getitem_def measurement_keys_def
            pump_request_def identity_scaler_refuses_infinity)
    show ?thesis
      by (rule unusable_reading_is_rejected [where d = "pump_request (JNum NInf)"
        and self = "pump_predictor 0" and mt = "''Pump''" and sc = identity_scaler
        and vs = ?vs, THEN conjunct2, THEN conjunct2, rule_format, OF pre])
  qed
  have inf: "scale_identity (JNum PInf) = None" and abc: "scale_identity (JStr ''abc'') = None"
    by simp_all
  note i = refused [OF inf] and s = refused [OF abc]
  from 1 2 i [THEN conjunct1] i [THEN conjunct2] s [THEN conjunct1] s [THEN conjunct2] 3
  show ?thesis
    unfolding d0_def E_def details_def by (intro conjI)
qed

text \<open>
  The code never looks at the five values themselves: a vibration that is NaN passes the
  field check, a scaler that keeps NaN and the model hand it on, and the prediction
  succeeds with \<open>mse\<close> and \<open>anomalyProbability\<close> NaN, \<open>isAnomaly\<close> false and exit
  code 0. A vibration that is the boolean true is read as 1.0 and scored like a number.
  So C5 does not hold for a NaN nor for every value that is not a number.
\<close>

theorem nan_measurement_is_scored:
  "map_of (pump_request (JNum NaN)) ''vibration'' = Some (JNum NaN)
   \<and> \<not> isl (predict_anomaly (pump_predictor 0) (pump_request (JNum NaN)) ''Pump'')
   \<and> map_sum id mse (predict_anomaly (pump_predictor 0) (pump_request (JNum NaN)) ''Pump'')
       = Inr NaN
   \<and> map_sum id anomalyProbability
        (predict_anomaly (pump_predictor 0) (pump_request (JNum NaN)) ''Pump'') = Inr NaN
   \<and> map_sum id isAnomaly
        (predict_anomaly (pump_predictor 0) (pump_request (JNum NaN)) ''Pump'') = Inr False
   \<and> exit_code (main (parsed_as (JObj (pump_request (JNum NaN)))) (pump_predictor 0) ''{...}'') = 0
   \<and> uncaught (main (parsed_as (JObj (pump_request (JNum NaN)))) (pump_predictor 0) ''{...}'') = None
   \<and> length (stdout (main (parsed_as (JObj (pump_request (JNum NaN)))) (pump_predictor 0) ''{...}'')) = 1
   \<and> map_of (pump_request (JBool True)) ''vibration'' = Some (JBool True)
   \<and> map_sum id mse (predict_anomaly (pump_predictor 0) (pump_request (JBool True)) ''Pump'')
       = Inr (Fin 0)
   \<and> map_sum id isAnomaly
        (predict_anomaly (pump_predictor 0) (pump_request (JBool True)) ''Pump'') = Inr False
   \<and> exit_code (main (parsed_as (JObj (pump_request (JBool True)))) (pump_predictor 0) ''{...}'') = 0"
proof -
  have scored: "exit_code (main (parsed_as (JObj (pump_request v))) (pump_predictor 0) ''{...}'') = 0
      \<and> uncaught (main (parsed_as (JObj (pump_request v))) (pump_predictor 0) ''{...}'') = None
      \<and> length (stdout (main (parsed_as (JObj (pump_request v))) (pump_predictor 0) ''{...}'')) = 1"
    if "predict_anomaly (pump_predictor 0) (pump_request v) ''Pump'' = Inr r" for v r
  proof -
    have "validate (JObj (pump_request v)) required_fields = Inr ()"
      by (simp add: required_fields_def pump_request_def contains_def bindE_def)
    with that have "main (parsed_as (JObj (pump_request v))) (pump_predictor 0) ''{...}''
        = \<lparr>stdout = [Success r], exit_code = 0, uncaught = None\<rparr>"
      by (simp add: main_def main_try_def parsed_as_def bindE_def run_prediction_def)
         (simp add: pump_request_def getitem_def that [unfolded pump_request_def])
    then show ?thesis by simp
  qed
  obtain r where
    r: "predict_anomaly (pump_predictor 0) (pump_request (JNum NaN)) ''Pump'' = Inr r"
    and v: "mse r = NaN" "anomalyProbability r = NaN" "\<not> isAnomaly r"
    by (simp add: run_defs)
  obtain b where
    b: "predict_anomaly (pump_predictor 0) (pump_request (JBool True)) ''Pump'' = Inr b"
    and w: "mse b = Fin 0" "\<not> isAnomaly b"
    by (simp add: run_defs)
  from scored [OF r] scored [OF b] r v b w show ?thesis
    by (simp add: pump_request_def)
qed

subsection \<open>The training pipeline\<close>

text \<open>
  Sorting a list that is sorted the other way round, with no two equal keys, restores it;
  and what \<open>prepare_data\<close> and \<open>train_model_for_machine_type\<close> compute once the
  data is loaded.
\<close>

lemma timestamp_truncate: "timestamp (reading.truncate r) = timestamp r"
  by (simp add: reading.truncate_def)

lemma filter_same_key:
  "distinct (map f xs) \<Longrightarrow> k \<in> set xs \<Longrightarrow> filter (\<lambda>x. f k = f x) xs = [k]"
proof (induction xs)
  case Nil
  then show ?case by simp
next
  case (Cons a xs)
  show ?case
  proof (cases "k = a")
    case True
    with Cons.prems have "filter (\<lambda>x. f k = f x) xs = []"
      by (auto simp: filter_empty_conv)
    with True show ?thesis by simp
  next
    case False
    with Cons.prems have "k \<in> set xs" by simp
    moreover from this Cons.prems have "f k \<noteq> f a" by (metis distinct.simps(2) image_eqI list.simps(9) set_map)
    ultimately have "k \<in> set xs" "f k \<noteq> f a" by simp_all
    with Cons show ?thesis by simp
  qed
qed

lemma sort_key_rev_sorted:
  assumes "sorted (map f xs)" and "distinct (map f xs)"
  shows "sort_key f (rev xs) = xs"
proof (rule properties_for_sort_key)
  show "mset xs = mset (rev xs)" by simp
  show "sorted (map f xs)" by (rule assms(1))
  fix k assume k: "k \<in> set xs"
  from assms(2) have "distinct (map f (rev xs))" by (simp add: rev_map [symmetric])
  with k have "filter (\<lambda>x. f k = f x) (rev xs) = [k]" by (intro filter_same_key) simp_all
  moreover from assms(2) k have "filter (\<lambda>x. f k = f x) xs = [k]" by (rule filter_same_key)
  ultimately show "filter (\<lambda>x. f k = f x) xs = filter (\<lambda>x. f k = f x) (rev xs)" by simp
qed

lemma length_prepare_data:
  "prepare_data df = Inr (X, y, sc) \<Longrightarrow>
     MinMaxScaler_fit (map features_of df) = Inr sc
   \<and> X = map (MinMaxScaler_transform sc) (map features_of df) \<and> y = X"
  by (auto simp: prepare_data_def Let_def bindE_Inr_iff)

lemma fit_nonempty:
  "rows \<noteq> [] \<Longrightarrow> \<exists>sc. MinMaxScaler_fit rows = Inr sc"
  by (cases rows) (simp_all add: MinMaxScaler_fit_def)

lemma train_proceeds:
  assumes "load_data_from_db db mt 10000 = Some df" and "100 \<le> length df"
      and "MinMaxScaler_fit (map features_of df) = Inr sc"
  shows "train_model_for_machine_type libs db mt =
           fit_and_save libs mt sc
             (map (MinMaxScaler_transform sc \<circ> features_of) (take (split_idx (length df)) df))
             (map (MinMaxScaler_transform sc \<circ> features_of) (take (split_idx (length df)) df))
             (map (MinMaxScaler_transform sc \<circ> features_of) (drop (split_idx (length df)) df))
             (map (MinMaxScaler_transform sc \<circ> features_of) (drop (split_idx (length df)) df))"
  using assms
  by (simp add: train_model_for_machine_type_def prepare_data_def Let_def bindE_def
        take_map drop_map)

text \<open>The table of one hundred rows, as loaded, and the scaler fitted on it.\<close>

lemma foldl_replicate_idem: "f z z = z \<Longrightarrow> foldl f z (replicate n z) = z"
  by (induction n) simp_all

lemma flat_table_filter: "filter (\<lambda>r. machine_type r = mt) (flat_table mt x) = flat_table mt x"
  by (simp add: flat_table_def sensor_row_def filter_map comp_def)

lemma upt_hundred: "[0..<100] = [0..<99] @ [99::nat]"
proof -
  have "[0..<Suc 99] = [0..<99] @ [99::nat]" by (rule upt_Suc_append) simp
  then show ?thesis by simp
qed

lemma flat_table_timestamps: "map timestamp (flat_table mt x) = map int [0..<100]"
  by (simp add: flat_table_def sensor_row_def upt_hundred comp_def)

lemma strictly_sorted_ints: "sorted_wrt (<) (map int [m..<n])"
  by (simp add: sorted_wrt_map)

lemma flat_table_sorted:
  "sorted (map timestamp (flat_table mt x))" "distinct (map timestamp (flat_table mt x))"
  using strictly_sorted_ints [of 0 100]
  by (simp_all add: flat_table_timestamps strict_sorted_iff del: upt_hundred)

lemma length_flat_table: "length (flat_table mt x) = 100"
  by (simp add: flat_table_def)

lemma load_flat_db:
  "load_data_from_db (flat_db x) mt 10000 = Some (map reading.truncate (flat_table mt x))"
proof -
  let ?t = "flat_table mt x"
  have 1: "sort_key timestamp ?t = ?t"
    by (rule sort_key_id_if_sorted) (rule flat_table_sorted)
  have 2: "take 10000 (rev ?t) = rev ?t"
    by (simp add: length_flat_table)
  have "map timestamp (map reading.truncate ?t) = map timestamp ?t"
    by (simp add: comp_def timestamp_truncate)
  then have "sort_key timestamp (rev (map reading.truncate ?t)) = map reading.truncate ?t"
    by (intro sort_key_rev_sorted) (simp_all only: flat_table_sorted)
  then show ?thesis
    by (simp add: load_data_from_db_def flat_db_def select_sensor_data_def flat_table_filter
          1 2 rev_map)
qed

lemma flat_table_features:
  "map features_of (map reading.truncate (flat_table mt x)) =
     replicate 99 [0, 0, 0, 0, 0] @ [[x, x, x, x, x]]"
  by (simp add: flat_table_def sensor_row_def features_of_def reading.truncate_def comp_def
        map_replicate_const)

lemma flat_table_fit:
  assumes "0 \<le> x"
  shows "MinMaxScaler_fit (map features_of (map reading.truncate (flat_table mt x))) =
     Inr \<lparr>data_min = [0, 0, 0, 0, 0], data_max = [x, x, x, x, x]\<rparr>"
proof -
  let ?z = "[0, 0, 0, 0, 0 :: real]"
  have r: "replicate 99 ?z = ?z # replicate 98 ?z"
    by (simp add: numeral_eq_Suc)
  have "foldl (map2 min) ?z (replicate 98 ?z) = ?z" "foldl (map2 max) ?z (replicate 98 ?z) = ?z"
    by (rule foldl_replicate_idem, simp)+
  with assms show ?thesis
    unfolding flat_table_features r
    by (simp add: MinMaxScaler_fit_def min_absorb1 max_absorb2)
qed

lemma stub_fit_and_save:
  "map_sum id (map_option scaler) (fit_and_save stub_libs mt sc X_train y_train X_test y_test)
     = Inr (Some sc)"
  by (simp add: fit_and_save_def stub_libs_def bindE_def Let_def)

lemma flat_db_trained:
  assumes "0 \<le> x"
  shows "map_sum id (map_option scaler) (train_model_for_machine_type stub_libs (flat_db x) mt)
     = Inr (Some \<lparr>data_min = [0, 0, 0, 0, 0], data_max = [x, x, x, x, x]\<rparr>)"
  by (subst train_proceeds [OF load_flat_db _ flat_table_fit [OF assms]])
     (simp_all add: length_flat_table stub_fit_and_save)

text \<open>Every row given to \<open>fit\<close> lies within the fitted bounds, in every column.\<close>

lemma length_foldl_map2:
  "length r = n \<Longrightarrow> \<forall>row\<in>set rs. length row = n \<Longrightarrow> length (foldl (map2 f) r rs) = n"
  by (induction rs arbitrary: r) simp_all

lemma foldl_min_le_start:
  "length r = n \<Longrightarrow> \<forall>row\<in>set rs. length row = n \<Longrightarrow> j < n \<Longrightarrow>
   foldl (map2 min) r rs ! j \<le> (r ! j :: real)"
proof (induction rs arbitrary: r)
  case Nil
  then show ?case by simp
next
  case (Cons a rs)
  from Cons.prems have "foldl (map2 min) (map2 min r a) rs ! j \<le> map2 min r a ! j"
    by (intro Cons.IH) simp_all
  also from Cons.prems have "map2 min r a ! j = min (r ! j) (a ! j)" by simp
  finally show ?case by simp
qed

lemma foldl_min_le_row:
  "length r = n \<Longrightarrow> \<forall>row\<in>set rs. length row = n \<Longrightarrow> j < n \<Longrightarrow> row \<in> set rs \<Longrightarrow>
   foldl (map2 min) r rs ! j \<le> (row ! j :: real)"
proof (induction rs arbitrary: r)
  case Nil
  then show ?case by simp
next
  case (Cons a rs)
  show ?case
  proof (cases "row = a")
    case True
    from Cons.prems have "foldl (map2 min) (map2 min r a) rs ! j \<le> map2 min r a ! j"
      by (intro foldl_min_le_start) simp_all
    also from Cons.prems have "map2 min r a ! j = min (r ! j) (a ! j)" by simp
    finally show ?thesis using True by simp
  next
    case False
    with Cons.prems have "row \<in> set rs" by simp
    with Cons.prems show ?thesis by (simp add: Cons.IH)
  qed
qed

lemma foldl_max_ge_start:
  "length r = n \<Longrightarrow> \<forall>row\<in>set rs. length row = n \<Longrightarrow> j < n \<Longrightarrow>
   (r ! j :: real) \<le> foldl (map2 max) r rs ! j"
proof (induction rs arbitrary: r)
  case Nil
  then show ?case by simp
next
  case (Cons a rs)
  from Cons.prems have "map2 max r a ! j = max (r ! j) (a ! j)" by simp
  moreover from Cons.prems have "map2 max r a ! j \<le> foldl (map2 max) (map2 max r a) rs ! j"
    by (intro Cons.IH) simp_all
  ultimately show ?case by simp
qed

lemma foldl_max_ge_row:
  "length r = n \<Longrightarrow> \<forall>row\<in>set rs. length row = n \<Longrightarrow> j < n \<Longrightarrow> row \<in> set rs \<Longrightarrow>
   (row ! j :: real) \<le> foldl (map2 max) r rs ! j"
proof (induction rs arbitrary: r)
  case Nil
  then show ?case by simp
next
  case (Cons a rs)
  show ?case
  proof (cases "row = a")
    case True
    from Cons.prems have "map2 max r a ! j = max (r ! j) (a ! j)" by simp
    moreover from Cons.prems have "map2 max r a ! j \<le> foldl (map2 max) (map2 max r a) rs ! j"
      by (intro foldl_max_ge_start) simp_all
    ultimately show ?thesis using True by simp
  next
    case False
    with Cons.prems have "row \<in> set rs" by simp
    with Cons.prems show ?thesis by (simp add: Cons.IH)
  qed
qed

lemma fit_bounds:
  assumes "MinMaxScaler_fit rows = Inr sc" and "\<forall>row\<in>set rows. length row = n"
      and "row \<in> set rows" and "j < n"
  shows "data_min sc ! j \<le> row ! j \<and> row ! j \<le> data_max sc ! j"
proof (cases rows)
  case Nil
  with assms(3) show ?thesis by simp
next
  case (Cons r rs)
  with assms(1) have sc: "data_min sc = foldl (map2 min) r rs" "data_max sc = foldl (map2 max) r rs"
    by (auto simp: MinMaxScaler_fit_def)
  from Cons assms(2) have len: "length r = n" "\<forall>row\<in>set rs. length row = n" by simp_all
  show ?thesis
  proof (cases "row = r")
    case True
    with len assms(4) show ?thesis
      by (simp add: sc foldl_min_le_start foldl_max_ge_start)
  next
    case False
    with Cons assms(3) have "row \<in> set rs" by simp
    with len assms(4) show ?thesis
      by (simp add: sc foldl_min_le_row foldl_max_ge_row)
  qed
qed

lemma fit_and_save_scaler:
  "fit_and_save libs mt sc a b c d = Inr (Some result) \<Longrightarrow> scaler result = sc"
  by (auto simp: fit_and_save_def bindE_Inr_iff Let_def)

lemma train_InrD:
  assumes "train_model_for_machine_type libs db mt = Inr (Some result)"
  shows "\<exists>df. load_data_from_db db mt 10000 = Some df \<and> 100 \<le> length df
            \<and> MinMaxScaler_fit (map features_of df) = Inr (scaler result)"
  using assms
  by (auto simp: train_model_for_machine_type_def prepare_data_def Let_def bindE_Inr_iff
        split: option.splits if_splits dest: fit_and_save_scaler)

text \<open>
  C1, as the code has it. \<open>prepare_data\<close> fits the scaler on the features of all the
  rows loaded, before \<open>train_model_for_machine_type\<close> splits them: the scaler of a
  training result is \<open>MinMaxScaler.fit\<close> of every row, and its bounds enclose the rows
  of the validation part as well.
\<close>

theorem scaler_is_fitted_on_all_rows:
  assumes "load_data_from_db db mt 10000 = Some df"
      and "train_model_for_machine_type libs db mt = Inr (Some result)"
  shows "MinMaxScaler_fit (map features_of df) = Inr (scaler result)
       \<and> (\<forall>r\<in>set df. \<forall>j<5.
             data_min (scaler result) ! j \<le> features_of r ! j
           \<and> features_of r ! j \<le> data_max (scaler result) ! j)
       \<and> (\<forall>r\<in>set (drop (split_idx (length df)) df). \<forall>j<5.
             data_min (scaler result) ! j \<le> features_of r ! j
           \<and> features_of r ! j \<le> data_max (scaler result) ! j)"
proof -
  from train_InrD [OF assms(2)] assms(1)
  have fit: "MinMaxScaler_fit (map features_of df) = Inr (scaler result)" by auto
  have len: "\<forall>row\<in>set (map features_of df). length row = 5"
    by (simp add: features_of_def)
  have all: "data_min (scaler result) ! j \<le> features_of r ! j
           \<and> features_of r ! j \<le> data_max (scaler result) ! j"
    if "r \<in> set df" "j < 5" for r j
    using fit_bounds [OF fit len, of "features_of r" j] that by simp
  moreover have "r \<in> set df" if "r \<in> set (drop (split_idx (length df)) df)" for r
    using that by (rule in_set_dropD)
  ultimately show ?thesis using fit by blast
qed

text \<open>
  The table whose newest row measures 2: that row is among the last twenty, and the fitted
  maximum is at least 2.
\<close>

theorem scaler_is_fitted_on_all_rows_witness:
  "\<exists>result.
     train_model_for_machine_type stub_libs (flat_db 2) ''Pump'' = Inr (Some result)
   \<and> MinMaxScaler_fit (map features_of (map reading.truncate (flat_table ''Pump'' 2)))
       = Inr (scaler result)
   \<and> reading.truncate (sensor_row ''Pump'' 99 2)
       \<in> set (drop (split_idx 100) (map reading.truncate (flat_table ''Pump'' 2)))
   \<and> 2 \<le> data_max (scaler result) ! 0"
proof -
  let ?df = "map reading.truncate (flat_table ''Pump'' 2)"
  let ?newest = "reading.truncate (sensor_row ''Pump'' 99 2)"
  from flat_db_trained [of 2 "''Pump''"] obtain result where
    r: "train_model_for_machine_type stub_libs (flat_db 2) ''Pump'' = Inr (Some result)"
    by (cases "train_model_for_machine_type stub_libs (flat_db 2) ''Pump''") auto
  note t = scaler_is_fitted_on_all_rows [OF load_flat_db r]
  have v: "?newest \<in> set (drop (split_idx (length ?df)) ?df)"
    by (simp add: split_idx_def flat_table_def)
  from t have "\<forall>r\<in>set (drop (split_idx (length ?df)) ?df). \<forall>j<5.
             data_min (scaler result) ! j \<le> features_of r ! j
           \<and> features_of r ! j \<le> data_max (scaler result) ! j"
    by (rule conjunct2 [OF conjunct2])
  with v have "features_of ?newest ! 0 \<le> data_max (scaler result) ! 0"
    by (metis zero_less_numeral)
  then have "2 \<le> data_max (scaler result) ! 0"
    by (simp add: features_of_def sensor_row_def reading.truncate_def)
  moreover from v have "?newest \<in> set (drop (split_idx 100) ?df)"
    by (simp add: length_flat_table)
  ultimately show ?thesis using r t [THEN conjunct1] by blast
qed

text \<open>
  C1 as stated fails. Two tables of one hundred rows that agree on the first eighty rows in
  time order (they differ in the newest row only, which is a validation row) give different
  scalers: maximum 1 in one run, maximum 2 in the other.
\<close>

theorem scaler_sees_validation_rows:
  "map_option (take (split_idx 100)) (load_data_from_db (flat_db 1) ''Pump'' 10000)
     = map_option (take (split_idx 100)) (load_data_from_db (flat_db 2) ''Pump'' 10000)
   \<and> map_option length (load_data_from_db (flat_db 1) ''Pump'' 10000) = Some 100
   \<and> map_option length (load_data_from_db (flat_db 2) ''Pump'' 10000) = Some 100
   \<and> map_sum id (map_option scaler) (train_model_for_machine_type stub_libs (flat_db 1) ''Pump'')
       = Inr (Some \<lparr>data_min = [0, 0, 0, 0, 0], data_max = [1, 1, 1, 1, 1]\<rparr>)
   \<and> map_sum id (map_option scaler) (train_model_for_machine_type stub_libs (flat_db 2) ''Pump'')
       = Inr (Some \<lparr>data_min = [0, 0, 0, 0, 0], data_max = [2, 2, 2, 2, 2]\<rparr>)"
proof -
  have "take (split_idx 100) (map reading.truncate (flat_table ''Pump'' 1))
      = take (split_idx 100) (map reading.truncate (flat_table ''Pump'' 2))"
    by (simp add: split_idx_def flat_table_def take_map)
  then show ?thesis
    by (simp add: load_flat_db length_flat_table flat_db_trained)
qed

text \<open>
  The split index is the floor of eight tenths of the number of rows, and the rows of the
  query come newest first.
\<close>

lemma split_idx_floor: "split_idx n = nat \<lfloor>0.8 * real n\<rfloor>"
proof -
  have "0.8 * real n = real (8 * n) / real 10" by simp
  then have "\<lfloor>0.8 * real n\<rfloor> = int ((8 * n) div 10)"
    by (simp only: floor_divide_of_nat_eq)
  then show ?thesis by (simp add: split_idx_def)
qed

lemma newest_first:
  fixes ms :: "sensor_data list"
  defines "sd \<equiv> rev (sort_key timestamp ms)"
  shows "sorted_wrt (\<lambda>a b. timestamp b \<le> timestamp a) sd" and "mset sd = mset ms"
proof -
  have "sorted (map timestamp (sort_key timestamp ms))" by (rule sorted_sort_key)
  then have "sorted_wrt (\<lambda>a b. timestamp a \<le> timestamp b) (sort_key timestamp ms)"
    by (simp add: sorted_wrt_map)
  then show "sorted_wrt (\<lambda>a b. timestamp b \<le> timestamp a) sd"
    by (simp add: sd_def sorted_wrt_rev)
  show "mset sd = mset ms" by (simp add: sd_def)
qed

text \<open>
  C9. The query keeps the \<open>limit\<close> newest rows of the machine type (every row it
  leaves out is no newer than any row it keeps) in descending time order;
  \<open>load_data_from_db\<close> returns the same rows sorted ascending by timestamp; and
  training splits the scaled features of these rows in that order, unshuffled, at
  \<open>floor(0.8 * n)\<close>: the first rows are the training set, the remaining rows the
  validation set.
\<close>

theorem chronological_split:
  assumes "db mt = Some table"
  shows "(\<exists>kept rest.
            mset (filter (\<lambda>r. machine_type r = mt) table) = mset kept + mset rest
          \<and> length kept = min limit (length (filter (\<lambda>r. machine_type r = mt) table))
          \<and> (\<forall>q\<in>set kept. \<forall>r\<in>set rest. timestamp r \<le> timestamp q)
          \<and> sorted (rev (map timestamp kept))
          \<and> select_sensor_data table mt limit = map reading.truncate kept
          \<and> (\<exists>df. load_data_from_db db mt limit = Some df
                 \<and> mset df = mset (map reading.truncate kept)
                 \<and> sorted (map timestamp df)))
       \<and> (\<forall>df X y sc.
             load_data_from_db db mt 10000 = Some df \<and> 100 \<le> length df
           \<and> prepare_data df = Inr (X, y, sc) \<longrightarrow>
             split_idx (length df) = nat \<lfloor>0.8 * real (length df)\<rfloor>
           \<and> X = map (MinMaxScaler_transform sc \<circ> features_of) df \<and> y = X
           \<and> take (split_idx (length df)) X @ drop (split_idx (length df)) X = X
           \<and> train_model_for_machine_type libs db mt =
               fit_and_save libs mt sc
                 (map (MinMaxScaler_transform sc \<circ> features_of) (take (split_idx (length df)) df))
                 (map (MinMaxScaler_transform sc \<circ> features_of) (take (split_idx (length df)) df))
                 (map (MinMaxScaler_transform sc \<circ> features_of) (drop (split_idx (length df)) df))
                 (map (MinMaxScaler_transform sc \<circ> features_of) (drop (split_idx (length df)) df)))"
proof -
  let ?ms = "filter (\<lambda>r. machine_type r = mt) table"
  let ?sd = "rev (sort_key timestamp ?ms)"
  let ?kept = "take limit ?sd" and ?rest = "drop limit ?sd"
  let ?df = "sort_key timestamp (map reading.truncate ?kept)"
  have "sorted_wrt (\<lambda>a b. timestamp b \<le> timestamp a) (?kept @ ?rest)"
    using newest_first(1) [of ?ms] by simp
  then have desc: "sorted_wrt (\<lambda>a b. timestamp b \<le> timestamp a) ?kept"
    and cross: "\<forall>q\<in>set ?kept. \<forall>r\<in>set ?rest. timestamp r \<le> timestamp q"
    unfolding sorted_wrt_append by blast+
  have 1: "mset ?ms = mset ?kept + mset ?rest"
    using newest_first(2) [of ?ms] by (metis append_take_drop_id mset_append)
  have 2: "length ?kept = min limit (length ?ms)"
    by (simp add: min.commute)
  from desc have 3: "sorted (rev (map timestamp ?kept))"
    by (simp add: rev_map [symmetric] sorted_wrt_map sorted_wrt_rev)
  have 4: "select_sensor_data table mt limit = map reading.truncate ?kept"
    by (simp add: select_sensor_data_def)
  have 5: "load_data_from_db db mt limit = Some ?df"
    by (simp add: load_data_from_db_def assms select_sensor_data_def)
  have 6: "mset ?df = mset (map reading.truncate ?kept)" "sorted (map timestamp ?df)"
    by (simp_all add: sorted_sort_key)
  have first: "\<exists>kept rest.
            mset ?ms = mset kept + mset rest
          \<and> length kept = min limit (length ?ms)
          \<and> (\<forall>q\<in>set kept. \<forall>r\<in>set rest. timestamp r \<le> timestamp q)
          \<and> sorted (rev (map timestamp kept))
          \<and> select_sensor_data table mt limit = map reading.truncate kept
          \<and> (\<exists>df. load_data_from_db db mt limit = Some df
                 \<and> mset df = mset (map reading.truncate kept)
                 \<and> sorted (map timestamp df))"
    using 1 2 cross 3 4 5 6 by blast
  have second: "split_idx (length df) = nat \<lfloor>0.8 * real (length df)\<rfloor>
           \<and> X = map (MinMaxScaler_transform sc \<circ> features_of) df \<and> y = X
           \<and> take (split_idx (length df)) X @ drop (split_idx (length df)) X = X
           \<and> train_model_for_machine_type libs db mt =
               fit_and_save libs mt sc
                 (map (MinMaxScaler_transform sc \<circ> features_of) (take (split_idx (length df)) df))
                 (map (MinMaxScaler_transform sc \<circ> features_of) (take (split_idx (length df)) df))
                 (map (MinMaxScaler_transform sc \<circ> features_of) (drop (split_idx (length df)) df))
                 (map (MinMaxScaler_transform sc \<circ> features_of) (drop (split_idx (length df)) df))"
    if "load_data_from_db db mt 10000 = Some df" "100 \<le> length df"
       "prepare_data df = Inr (X, y, sc)" for df X y sc
  proof -
    from length_prepare_data [OF that(3)]
    have p: "MinMaxScaler_fit (map features_of df) = Inr sc"
      "X = map (MinMaxScaler_transform sc \<circ> features_of) df" "y = X"
      by simp_all
    have a: "split_idx (length df) = nat \<lfloor>0.8 * real (length df)\<rfloor>"
      by (rule split_idx_floor)
    from train_proceeds [OF that(1,2) p(1)] p(2,3)
    have b: "X = map (MinMaxScaler_transform sc \<circ> features_of) df \<and> y = X
           \<and> take (split_idx (length df)) X @ drop (split_idx (length df)) X = X
           \<and> train_model_for_machine_type libs db mt =
               fit_and_save libs mt sc
                 (map (MinMaxScaler_transform sc \<circ> features_of) (take (split_idx (length df)) df))
                 (map (MinMaxScaler_transform sc \<circ> features_of) (take (split_idx (length df)) df))
                 (map (MinMaxScaler_transform sc \<circ> features_of) (drop (split_idx (length df)) df))
                 (map (MinMaxScaler_transform sc \<circ> features_of) (drop (split_idx (length df)) df))"
      by simp
    from a b show ?thesis by (rule conjI)
  qed
  from first second show ?thesis by blast
qed

text \<open>
  The table of one hundred rows: they come back in time order 0 to 99, the split index is
  80, and the model is fitted on the first eighty rows and validated on the last twenty.
\<close>

theorem chronological_split_witness:
  "\<exists>df. load_data_from_db (flat_db 1) ''Pump'' 10000 = Some df
     \<and> map timestamp df = map int [0..<100]
     \<and> split_idx (length df) = 80
     \<and> nat \<lfloor>0.8 * real (length df)\<rfloor> = 80
     \<and> train_model_for_machine_type stub_libs (flat_db 1) ''Pump'' =
         fit_and_save stub_libs ''Pump'' \<lparr>data_min = [0, 0, 0, 0, 0], data_max = [1, 1, 1, 1, 1]\<rparr>
           (map (MinMaxScaler_transform \<lparr>data_min = [0, 0, 0, 0, 0], data_max = [1, 1, 1, 1, 1]\<rparr>
                   \<circ> features_of) (take 80 df))
           (map (MinMaxScaler_transform \<lparr>data_min = [0, 0, 0, 0, 0], data_max = [1, 1, 1, 1, 1]\<rparr>
                   \<circ> features_of) (take 80 df))
           (map (MinMaxScaler_transform \<lparr>data_min = [0, 0, 0, 0, 0], data_max = [1, 1, 1, 1, 1]\<rparr>
                   \<circ> features_of) (drop 80 df))
           (map (MinMaxScaler_transform \<lparr>data_min = [0, 0, 0, 0, 0], data_max = [1, 1, 1, 1, 1]\<rparr>
                   \<circ> features_of) (drop 80 df))"
proof -
  define df where "df = map reading.truncate (flat_table ''Pump'' 1)"
  define sc where "sc = \<lparr>data_min = [0, 0, 0, 0, 0], data_max = [1, 1, 1, 1, 1 :: real]\<rparr>"
  define X where "X = map (MinMaxScaler_transform sc) (map features_of df)"
  have db: "flat_db 1 ''Pump'' = Some (flat_table ''Pump'' 1)"
    by (simp add: flat_db_def)
  have load: "load_data_from_db (flat_db 1) ''Pump'' 10000 = Some df"
    unfolding df_def by (rule load_flat_db)
  have len: "length df = 100"
    by (simp add: df_def length_flat_table)
  then have enough: "100 \<le> length df"
    by simp
  have fit: "MinMaxScaler_fit (map features_of df) = Inr sc"
    unfolding df_def sc_def by (rule flat_table_fit) simp
  then have prep: "prepare_data df = Inr (X, X, sc)"
    by (simp add: prepare_data_def bindE_def Let_def X_def)
  have idx: "split_idx (length df) = 80"
    by (simp add: len split_idx_def)
  note t = chronological_split [of "flat_db 1" "''Pump''" "flat_table ''Pump'' 1" 10000 stub_libs,
      OF db, THEN conjunct2, rule_format, of df X X sc, OF conjI [OF load conjI [OF enough prep]]]
  have floor: "nat \<lfloor>0.8 * real (length df)\<rfloor> = 80"
    using t [THEN conjunct1] idx by (simp only:)
  have train: "train_model_for_machine_type stub_libs (flat_db 1) ''Pump'' =
         fit_and_save stub_libs ''Pump'' sc
           (map (MinMaxScaler_transform sc \<circ> features_of) (take 80 df))
           (map (MinMaxScaler_transform sc \<circ> features_of) (take 80 df))
           (map (MinMaxScaler_transform sc \<circ> features_of) (drop 80 df))
           (map (MinMaxScaler_transform sc \<circ> features_of) (drop 80 df))"
    using t [THEN conjunct2, THEN conjunct2, THEN conjunct2, THEN conjunct2]
    unfolding idx .
  have stamps: "map timestamp df = map int [0..<100]"
    using flat_table_timestamps [of "''Pump''" 1]
    by (simp add: df_def comp_def timestamp_truncate)
  show ?thesis
    by (rule exI [of _ df], intro conjI)
       (rule load stamps idx floor train [unfolded sc_def])+
qed

text \<open>What the loop of \<open>main\<close> leaves in \<open>trained_models\<close> for a machine type.\<close>

lemma map_of_train_one:
  "map_of (train_one libs db acc a) k =
     (if k = a
      then (case train_model_for_machine_type libs db a of
              Inr (Some result) \<Rightarrow> Some result
            | _ \<Rightarrow> map_of acc k)
      else map_of acc k)"
  by (simp add: train_one_def update_conv' split: sum.split option.split)

lemma map_of_train_loop:
  "map_of (foldl (train_one libs db) acc mts) k =
     (if k \<in> set mts
      then (case train_model_for_machine_type libs db k of
              Inr (Some result) \<Rightarrow> Some result
            | _ \<Rightarrow> map_of acc k)
      else map_of acc k)"
proof (induction mts arbitrary: acc)
  case Nil
  then show ?case by simp
next
  case (Cons a mts)
  show ?case
  proof (cases "train_model_for_machine_type libs db k")
    case (Inl e)
    then show ?thesis by (auto simp: Cons.IH map_of_train_one)
  next
    case (Inr r)
    then show ?thesis by (cases r) (auto simp: Cons.IH map_of_train_one)
  qed
qed

lemma map_of_train_main:
  "map_of (train_main libs db) k =
     (if k \<in> set machine_types
      then (case train_model_for_machine_type libs db k of
              Inr (Some result) \<Rightarrow> Some result
            | _ \<Rightarrow> None)
      else None)"
  by (simp add: train_main_def map_of_train_loop split: sum.splits option.splits)

lemma train_reads_own_rows:
  "db' mt = db mt \<Longrightarrow>
   train_model_for_machine_type libs db' mt = train_model_for_machine_type libs db mt"
  by (simp add: train_model_for_machine_type_def load_data_from_db_def)

lemma contains_map_of: "contains d k \<longleftrightarrow> map_of d k \<noteq> None"
  by (simp add: contains_def map_of_eq_None_iff)

text \<open>
  C8. When no data can be loaded for a machine type, or fewer than 100 rows are loaded, or
  fewer than 10 rows are left after \<open>prepare_data\<close>, its training is given up: the
  function returns \<open>None\<close> (after the warning "Not enough data") without fitting a
  model, and \<open>main\<close> lists no model for it. For every machine type the entry of
  \<open>trained_models\<close> is decided by that type's own training alone, whether the other
  types were skipped or raised; and training a type reads only that type's rows.
\<close>

theorem insufficient_data_skips_one_machine_type:
  assumes "case load_data_from_db db mt 10000 of
             None \<Rightarrow> True
           | Some df \<Rightarrow> length df < 100
                        \<or> (\<exists>X y sc. prepare_data df = Inr (X, y, sc) \<and> length X < 10)"
  shows "train_model_for_machine_type libs db mt = Inr None
       \<and> \<not> contains (train_main libs db) mt
       \<and> (\<forall>mt'. map_of (train_main libs db) mt' =
             (if mt' \<in> set machine_types
              then (case train_model_for_machine_type libs db mt' of
                      Inr (Some result) \<Rightarrow> Some result
                    | _ \<Rightarrow> None)
              else None))
       \<and> (\<forall>mt' db'. db' mt' = db mt' \<longrightarrow>
             train_model_for_machine_type libs db' mt' = train_model_for_machine_type libs db mt'
           \<and> map_of (train_main libs db') mt' = map_of (train_main libs db) mt')"
proof -
  have 1: "train_model_for_machine_type libs db mt = Inr None"
  proof (cases "load_data_from_db db mt 10000")
    case None
    then show ?thesis by (simp add: train_model_for_machine_type_def)
  next
    case (Some df)
    show ?thesis
    proof (cases "length df < 100")
      case True
      with Some show ?thesis by (simp add: train_model_for_machine_type_def)
    next
      case False
      with assms Some obtain X y sc where "prepare_data df = Inr (X, y, sc)" "length X < 10"
        by auto
      with Some False show ?thesis
        by (simp add: train_model_for_machine_type_def bindE_def)
    qed
  qed
  then have 2: "\<not> contains (train_main libs db) mt"
    by (simp add: contains_map_of map_of_train_main)
  have 3: "train_model_for_machine_type libs db' mt' = train_model_for_machine_type libs db mt'
           \<and> map_of (train_main libs db') mt' = map_of (train_main libs db) mt'"
    if "db' mt' = db mt'" for mt' db'
    using train_reads_own_rows [of db' mt' db libs, OF that] by (simp add: map_of_train_main)
  have 4: "map_of (train_main libs db) mt' =
             (if mt' \<in> set machine_types
              then (case train_model_for_machine_type libs db mt' of
                      Inr (Some result) \<Rightarrow> Some result
                    | _ \<Rightarrow> None)
              else None)" for mt'
    by (rule map_of_train_main)
  from 3 have 5: "\<forall>mt' db'. db' mt' = db mt' \<longrightarrow>
             train_model_for_machine_type libs db' mt' = train_model_for_machine_type libs db mt'
           \<and> map_of (train_main libs db') mt' = map_of (train_main libs db) mt'"
    by (intro allI impI)
  from 4 have 6: "\<forall>mt'. map_of (train_main libs db) mt' =
             (if mt' \<in> set machine_types
              then (case train_model_for_machine_type libs db mt' of
                      Inr (Some result) \<Rightarrow> Some result
                    | _ \<Rightarrow> None)
              else None)"
    by (intro allI)
  from 1 2 6 5 show ?thesis by (intro conjI)
qed

text \<open>
  No rows for Pump and Valve, no connection for Motor, one hundred rows for Compressor:
  Pump is skipped, and Compressor is trained all the same.
\<close>

theorem insufficient_data_skips_one_machine_type_witness:
  "train_model_for_machine_type stub_libs compressor_db ''Pump'' = Inr None
   \<and> \<not> contains (train_main stub_libs compressor_db) ''Pump''
   \<and> map_of (train_main stub_libs compressor_db) ''Motor'' = None
   \<and> (\<exists>result. map_of (train_main stub_libs compressor_db) ''Compressor'' = Some result
         \<and> scaler result = \<lparr>data_min = [0, 0, 0, 0, 0], data_max = [1, 1, 1, 1, 1]\<rparr>)"
proof -
  have no_rows: "load_data_from_db compressor_db ''Pump'' 10000 = Some []"
    by (simp add: load_data_from_db_def compressor_db_def select_sensor_data_def)
  have hyp: "case load_data_from_db compressor_db ''Pump'' 10000 of
             None \<Rightarrow> True
           | Some df \<Rightarrow> length df < 100
                        \<or> (\<exists>X y sc. prepare_data df = Inr (X, y, sc) \<and> length X < 10)"
    unfolding no_rows by simp
  note t = insufficient_data_skips_one_machine_type [of compressor_db "''Pump''" stub_libs, OF hyp]
  note skipped = t [THEN conjunct1]
  note not_listed = t [THEN conjunct2, THEN conjunct1]
  note outcome = t [THEN conjunct2, THEN conjunct2, THEN conjunct1, rule_format]
  note own_rows = t [THEN conjunct2, THEN conjunct2, THEN conjunct2, rule_format]
  have "load_data_from_db compressor_db ''Motor'' 10000 = None"
    by (simp add: load_data_from_db_def compressor_db_def)
  then have "train_model_for_machine_type stub_libs compressor_db ''Motor'' = Inr None"
    by (simp add: train_model_for_machine_type_def)
  then have motor: "map_of (train_main stub_libs compressor_db) ''Motor'' = None"
    unfolding outcome [of "''Motor''"] by simp
  have same: "flat_db 1 ''Compressor'' = compressor_db ''Compressor''"
    by (simp add: flat_db_def compressor_db_def)
  from flat_db_trained [of 1 "''Compressor''"] obtain result where
    "train_model_for_machine_type stub_libs (flat_db 1) ''Compressor'' = Inr (Some result)"
    and sc: "scaler result = \<lparr>data_min = [0, 0, 0, 0, 0], data_max = [1, 1, 1, 1, 1]\<rparr>"
    by (cases "train_model_for_machine_type stub_libs (flat_db 1) ''Compressor''") auto
  then have "train_model_for_machine_type stub_libs compressor_db ''Compressor'' = Inr (Some result)"
    using own_rows [of "flat_db 1" "''Compressor''", OF same, THEN conjunct1] by simp
  then have "map_of (train_main stub_libs compressor_db) ''Compressor'' = Some result"
    unfolding outcome [of "''Compressor''"] by (simp add: machine_types_def)
  with sc have compressor: "\<exists>result. map_of (train_main stub_libs compressor_db) ''Compressor'' = Some result
         \<and> scaler result = \<lparr>data_min = [0, 0, 0, 0, 0], data_max = [1, 1, 1, 1, 1]\<rparr>"
    by (intro exI conjI)
  from skipped not_listed motor compressor show ?thesis by (intro conjI)
qed

end
